theory Spec2Isabelle
  imports Complex_Main
begin

section \<open>Preliminaries: numbers, clock and rounding\<close>

text \<open>
  A finite Python float is modelled by a real number, in the same order: a float written
  as a decimal (a literal, a configured threshold, a result of \<open>round\<close>) by that decimal.
  Comparisons of floats are therefore exact. An instant of \<open>datetime\<close> is the number of
  seconds since a fixed epoch, and a \<open>timedelta\<close> the difference of two instants in
  seconds. Arithmetic on floats rounds: where the alert path computes the risk score, a mean
  or a slope in double precision, the function of the model takes the rounding error of
  that computation (the double the code obtains minus the value of the same expression over
  the reals) as an argument, so that a statement proved for every error holds of the double
  the code computes. The health heuristic and the smoothing of the stabiliser are computed
  over the reals; what is proved of them is the order of the values they return, which
  rests on \<open>min\<close>, \<open>max\<close> and the monotonicity of \<open>round\<close>, not on the arithmetic.
  Each top-level call reads the wall clock at one instant, which is passed as the argument
  \<open>now\<close>. A Python \<open>str\<close> is the list of its code points, \<open>len\<close> its length; the texts
  of the model are those SQLite can bind (encodable as UTF-8). Arguments have the types the
  code annotates them with.
\<close>

type_synonym time = real

text \<open>
  Python's \<open>round(x, n)\<close> of the double \<open>x\<close>: the multiple of \<open>10^-n\<close> nearest to the
  value \<open>x\<close> denotes, a tie going to the even neighbour.
\<close>

definition round_half_even :: "real \<Rightarrow> int" where
  "round_half_even y =
     (let f = \<lfloor>y\<rfloor>; d = y - of_int f
      in if d < 1 / 2 then f
         else if 1 / 2 < d then f + 1
         else if even f then f else f + 1)"

definition py_round :: "real \<Rightarrow> nat \<Rightarrow> real" where
  "py_round x nd = of_int (round_half_even (x * 10 ^ nd)) / 10 ^ nd"

text \<open>
  Decimal rendering of the integers the code formats into identifiers and messages:
  \<open>str_nat\<close> is \<open>str(n)\<close>, and \<open>zfill\<close> pads with zeros on the left.
\<close>

fun str_nat :: "nat \<Rightarrow> string" where
  "str_nat n =
     (if n < 10 then [''0123456789'' ! n]
      else str_nat (n div 10) @ [''0123456789'' ! (n mod 10)])"

declare str_nat.simps [simp del]

definition zfill :: "nat \<Rightarrow> string \<Rightarrow> string" where
  "zfill w s = replicate (w - length s) (CHR ''0'') @ s"

text \<open>
  A sensor sample is a dictionary from sensor names to readings, kept in insertion order;
  \<open>dict.get(key, default)\<close> is \<open>get_or\<close>.
\<close>

type_synonym sensor_data = "(string \<times> real) list"

definition get_or :: "('k \<times> 'v) list \<Rightarrow> 'k \<Rightarrow> 'v \<Rightarrow> 'v" where
  "get_or d k dflt = (case map_of d k of Some v \<Rightarrow> v | None \<Rightarrow> dflt)"

text \<open>The JSON text of an alert's metadata is kept as the value that \<open>json.dumps\<close> receives.\<close>

datatype json = JNum real | JStr string | JObj "(string \<times> json) list"

definition json_of_sensors :: "sensor_data \<Rightarrow> json" where
  "json_of_sensors sd = JObj (map (\<lambda>(k, v). (k, JNum v)) sd)"

section \<open>config.py\<close>

definition RUL_CRITICAL_TRIGGER :: real where "RUL_CRITICAL_TRIGGER = 24"
definition RUL_CRITICAL_CLEAR :: real where "RUL_CRITICAL_CLEAR = 28"
definition RUL_WARNING_TRIGGER :: real where "RUL_WARNING_TRIGGER = 48"
definition RUL_WARNING_CLEAR :: real where "RUL_WARNING_CLEAR = 52"

definition HEALTH_CRITICAL_TRIGGER :: real where "HEALTH_CRITICAL_TRIGGER = 30"
definition HEALTH_CRITICAL_CLEAR :: real where "HEALTH_CRITICAL_CLEAR = 35"
definition HEALTH_WARNING_TRIGGER :: real where "HEALTH_WARNING_TRIGGER = 50"
definition HEALTH_WARNING_CLEAR :: real where "HEALTH_WARNING_CLEAR = 55"

definition PERSISTENCE_WINDOWS :: "string \<rightharpoonup> real" where
  "PERSISTENCE_WINDOWS =
     [''critical_rul'' \<mapsto> 30, ''warning_rul'' \<mapsto> 60, ''low_health_critical'' \<mapsto> 30,
      ''low_health_warning'' \<mapsto> 60, ''anomaly_detected'' \<mapsto> 45]"

definition MAX_ALERTS_PER_MACHINE_PER_MINUTE :: nat where
  "MAX_ALERTS_PER_MACHINE_PER_MINUTE = 3"

definition MULTI_SENSOR_REQUIRED_FOR_CRITICAL :: bool where
  "MULTI_SENSOR_REQUIRED_FOR_CRITICAL = True"

definition MIN_DEGRADED_SENSORS_FOR_CRITICAL :: nat where
  "MIN_DEGRADED_SENSORS_FOR_CRITICAL = 2"

definition SENSOR_DEGRADATION_THRESHOLDS :: "string \<rightharpoonup> real" where
  "SENSOR_DEGRADATION_THRESHOLDS =
     [''vibration_x'' \<mapsto> 1.5, ''vibration_y'' \<mapsto> 1.5, ''temperature'' \<mapsto> 85,
      ''pressure_low'' \<mapsto> 90, ''rpm_low'' \<mapsto> 1350]"

definition ANOMALY_CRITICAL_SCORE :: real where "ANOMALY_CRITICAL_SCORE = 5"
definition EMA_ALPHA :: real where "EMA_ALPHA = 0.1"
definition MIN_PREDICTION_INTERVAL_SECONDS :: real where "MIN_PREDICTION_INTERVAL_SECONDS = 300"
definition MAX_RUL_HOURS :: real where "MAX_RUL_HOURS = 144"
definition MIN_RUL_HOURS :: real where "MIN_RUL_HOURS = 0"
definition MIN_RESOLUTION_NOTES_LENGTH :: nat where "MIN_RESOLUTION_NOTES_LENGTH = 10"
definition MIN_ROOT_CAUSE_LENGTH :: nat where "MIN_ROOT_CAUSE_LENGTH = 5"

text \<open>One entry of \<open>Config.EVALUATION_WINDOWS\<close>.\<close>

record window_config =
  duration_seconds :: real
  required_pct_above :: real
  require_worsening_trend :: bool
  risk_threshold :: real

definition EVALUATION_WINDOWS :: "string \<rightharpoonup> window_config" where
  "EVALUATION_WINDOWS =
     [''warning_rul'' \<mapsto>
        \<lparr>duration_seconds = 60, required_pct_above = 0.55,
         require_worsening_trend = True, risk_threshold = 0.4\<rparr>,
      ''critical_rul'' \<mapsto>
        \<lparr>duration_seconds = 45, required_pct_above = 0.65,
         require_worsening_trend = True, risk_threshold = 0.6\<rparr>,
      ''low_health_warning'' \<mapsto>
        \<lparr>duration_seconds = 60, required_pct_above = 0.55,
         require_worsening_trend = True, risk_threshold = 0.4\<rparr>,
      ''low_health_critical'' \<mapsto>
        \<lparr>duration_seconds = 45, required_pct_above = 0.65,
         require_worsening_trend = True, risk_threshold = 0.6\<rparr>,
      ''anomaly_detected'' \<mapsto>
        \<lparr>duration_seconds = 90, required_pct_above = 0.5,
         require_worsening_trend = False, risk_threshold = 0.3\<rparr>]"

section \<open>evaluation\_window.py: the risk score\<close>

text \<open>
  \<open>err\<close> is the rounding error of the double \<open>combined\<close>: the three components and their
  weighted sum are computed in double precision, and \<open>round\<close> is applied to the double.
\<close>

definition calculate_risk_score :: "real \<Rightarrow> real \<Rightarrow> real \<Rightarrow> real \<Rightarrow> real" where
  "calculate_risk_score err rul_hours health_score anomaly_score =
     (let rul_risk = max 0 (min 1 (1 - rul_hours / MAX_RUL_HOURS));
          health_risk = max 0 (min 1 (1 - health_score / 100));
          anomaly_risk = min 1 (anomaly_score / 10);
          combined = rul_risk * 0.5 + health_risk * 0.35 + anomaly_risk * 0.15 + err
      in py_round (min 1 (max 0 combined)) 3)"

text \<open>
  The weighted sum as the specification words it: the RUL and health components clamped to
  \<open>[0, 1]\<close>, the anomaly component capped at 1, weights 0.5, 0.35 and 0.15.
\<close>

definition spec_weighted_risk :: "real \<Rightarrow> real \<Rightarrow> real \<Rightarrow> real" where
  "spec_weighted_risk rul health anomaly =
     0.5 * max 0 (min 1 (1 - rul / MAX_RUL_HOURS))
     + 0.35 * max 0 (min 1 (1 - health / 100))
     + 0.15 * min 1 (anomaly / 10)"


section \<open>evaluation\_window.py: the sliding window\<close>

record WindowSample =
  ws_timestamp :: time
  ws_risk_score :: real
  ws_health_score :: real
  ws_rul_hours :: real
  ws_sensors :: sensor_data

text \<open>
  The \<open>reason\<close> of an evaluation names the failing conditions in the order the code appends
  them; the numbers the code formats into each entry are left out.
\<close>

datatype reason =
    Insufficient_samples
  | No_window_exists
  | PROCEED
  | Rejected "string list"

record WindowEvaluation =
  may_proceed :: bool
  mean_risk :: real
  risk_trend :: real
  pct_above_threshold :: real
  sample_count :: nat
  window_duration_actual :: real
  reason :: reason

text \<open>
  An \<open>EvaluationWindow\<close> carries the four configured parameters and its samples. Every entry
  of \<open>EVALUATION_WINDOWS\<close> and the manager's fallback give all four parameters, so the
  constructor's own defaults are never used.
\<close>

record EvaluationWindow = window_config +
  ew_machine_id :: string
  ew_alert_type :: string
  samples :: "WindowSample list"

definition EvaluationWindow_init :: "string \<Rightarrow> string \<Rightarrow> window_config \<Rightarrow> EvaluationWindow" where
  "EvaluationWindow_init machine_id alert_type config =
     \<lparr>duration_seconds = duration_seconds config,
      required_pct_above = required_pct_above config,
      require_worsening_trend = require_worsening_trend config,
      risk_threshold = risk_threshold config,
      ew_machine_id = machine_id, ew_alert_type = alert_type, samples = []\<rparr>"

definition prune_old_samples :: "EvaluationWindow \<Rightarrow> time \<Rightarrow> EvaluationWindow" where
  "prune_old_samples w now =
     (let cutoff = now - duration_seconds w
      in w\<lparr>samples := filter (\<lambda>s. cutoff \<le> ws_timestamp s) (samples w)\<rparr>)"

definition add_sample ::
  "EvaluationWindow \<Rightarrow> real \<Rightarrow> real \<Rightarrow> real \<Rightarrow> sensor_data \<Rightarrow> time \<Rightarrow> EvaluationWindow" where
  "add_sample w risk health rul sensors now =
     (let sample = \<lparr>ws_timestamp = now, ws_risk_score = risk, ws_health_score = health,
                     ws_rul_hours = rul, ws_sensors = sensors\<rparr>
      in prune_old_samples (w\<lparr>samples := samples w @ [sample]\<rparr>) now)"

text \<open>
  \<open>calculate_trend\<close> and \<open>evaluate\<close> compute with numpy in double precision:
  \<open>err_trend\<close> is the rounding error of \<open>slope * 60\<close> and \<open>err_mean\<close> that of
  \<open>np.mean(risks)\<close>. The constant results (0 for fewer than two values or a span under one
  second) and the fraction of samples at or above the threshold, a quotient of two small
  integers compared with a configured double, carry no error.
\<close>

definition calculate_trend :: "real \<Rightarrow> time list \<Rightarrow> real list \<Rightarrow> real" where
  "calculate_trend err_trend timestamps vals =
     (if length vals < 2 then 0
      else
        let t0 = hd timestamps;
            x = map (\<lambda>t. t - t0) timestamps;
            y = vals
        in if last x - hd x < 1 then 0
           else
             let n = real (length x);
                 slope = (n * sum_list (map2 (*) x y) - sum_list x * sum_list y)
                         / (n * sum_list (map (\<lambda>v. v ^ 2) x) - (sum_list x) ^ 2 + 1 / 10 ^ 10)
             in slope * 60 + err_trend)"

definition evaluate ::
  "EvaluationWindow \<Rightarrow> real \<Rightarrow> real \<Rightarrow> time \<Rightarrow> WindowEvaluation \<times> EvaluationWindow" where
  "evaluate w0 err_mean err_trend now =
     (let w = prune_old_samples w0 now
      in if length (samples w) < 3 then
           (\<lparr>may_proceed = False, mean_risk = 0, risk_trend = 0, pct_above_threshold = 0,
             sample_count = length (samples w), window_duration_actual = 0,
             reason = Insufficient_samples\<rparr>, w)
         else
           let risks = map ws_risk_score (samples w);
               timestamps = map ws_timestamp (samples w);
               mean_r = sum_list risks / real (length risks) + err_mean;
               trend = calculate_trend err_trend timestamps risks;
               pct_above = real (length (filter (\<lambda>r. risk_threshold w \<le> r) risks))
                           / real (length risks);
               duration_actual = last timestamps - hd timestamps;
               condition_mean = (risk_threshold w \<le> mean_r);
               condition_trend = (\<not> require_worsening_trend w \<or> 0 < trend);
               condition_pct = (required_pct_above w \<le> pct_above);
               proceed = (condition_mean \<and> condition_trend \<and> condition_pct);
               reasons = (if \<not> condition_mean then [''mean_risk''] else [])
                         @ (if \<not> condition_trend then [''trend''] else [])
                         @ (if \<not> condition_pct then [''pct_above''] else [])
           in (\<lparr>may_proceed = proceed, mean_risk = mean_r, risk_trend = trend,
                pct_above_threshold = pct_above, sample_count = length (samples w),
                window_duration_actual = duration_actual,
                reason = (if proceed then PROCEED else Rejected reasons)\<rparr>, w))"

text \<open>\<open>EvaluationWindowManager\<close>: one window per \<open>(machine_id, alert_type)\<close>.\<close>

type_synonym windows = "string \<times> string \<rightharpoonup> EvaluationWindow"

definition get_window_config :: "string \<Rightarrow> window_config" where
  "get_window_config alert_type =
     (case EVALUATION_WINDOWS alert_type of
        Some c \<Rightarrow> c
      | None \<Rightarrow> \<lparr>duration_seconds = 60, required_pct_above = 0.6,
                  require_worsening_trend = True, risk_threshold = 0.5\<rparr>)"

definition wm_add_sample ::
  "windows \<Rightarrow> string \<Rightarrow> string \<Rightarrow> real \<Rightarrow> real \<Rightarrow> real \<Rightarrow> sensor_data \<Rightarrow> time \<Rightarrow> windows" where
  "wm_add_sample ws machine_id alert_type risk health rul sensors now =
     (let key = (machine_id, alert_type);
          w = (case ws key of
                 Some w \<Rightarrow> w
               | None \<Rightarrow> EvaluationWindow_init machine_id alert_type (get_window_config alert_type))
      in ws(key \<mapsto> add_sample w risk health rul sensors now))"

definition wm_evaluate ::
  "windows \<Rightarrow> string \<Rightarrow> string \<Rightarrow> real \<Rightarrow> real \<Rightarrow> time \<Rightarrow> WindowEvaluation \<times> windows" where
  "wm_evaluate ws machine_id alert_type err_mean err_trend now =
     (let key = (machine_id, alert_type)
      in case ws key of
           None \<Rightarrow>
             (\<lparr>may_proceed = False, mean_risk = 0, risk_trend = 0, pct_above_threshold = 0,
               sample_count = 0, window_duration_actual = 0, reason = No_window_exists\<rparr>, ws)
         | Some w \<Rightarrow>
             (let (e, w') = evaluate w err_mean err_trend now in (e, ws(key \<mapsto> w'))))"

section \<open>database.py\<close>

text \<open>
  The two tables the alert lifecycle writes. A row of \<open>alerts\<close> and a row of
  \<open>maintenance_logs\<close> are records; the tables are lists in insertion order. The column
  \<open>id\<close> of each table is its primary key: an \<open>INSERT\<close> of an existing key raises, the
  connection's context manager rolls the transaction back and the exception reaches the
  caller. A Python \<open>int\<close> bound to a statement must fit SQLite's 64-bit \<open>INTEGER\<close>:
  otherwise \<open>execute\<close> raises \<open>OverflowError\<close> before the statement runs. Timestamps are
  instants rather than their ISO text. Failures of the file system and of locking are not
  modelled.
\<close>

datatype error = IntegrityError | OverflowError

definition sqlite_integer :: "int \<Rightarrow> bool" where
  "sqlite_integer n = (- (2 ^ 63) \<le> n \<and> n < 2 ^ 63)"

record Alert =
  a_id :: string
  a_machine_id :: string
  a_alert_type :: string
  a_severity :: string
  a_message :: string
  a_created_at :: time
  a_state :: string
  a_acknowledged_by :: "string option"
  a_acknowledged_at :: "time option"
  a_resolved_by :: "string option"
  a_resolved_at :: "time option"
  a_resolution_notes :: "string option"
  a_root_cause :: "string option"
  a_downtime_minutes :: "int option"
  a_metadata :: json

record MaintenanceLog =
  l_id :: string
  l_machine_id :: string
  l_alert_id :: "string option"
  l_created_at :: time
  l_resolved_at :: time
  l_operator :: string
  l_root_cause :: string
  l_resolution_notes :: string
  l_downtime_minutes :: int
  l_severity :: string
  l_alert_type :: string
  l_metadata :: json

record Database =
  alerts :: "Alert list"
  maintenance_logs :: "MaintenanceLog list"

definition empty_database :: Database where
  "empty_database = \<lparr>alerts = [], maintenance_logs = []\<rparr>"

text \<open>The dictionary \<open>alert_data\<close> that \<open>create_alert\<close> receives.\<close>

record alert_data =
  ad_id :: string
  ad_machine_id :: string
  ad_alert_type :: string
  ad_severity :: string
  ad_message :: string
  ad_created_at :: time
  ad_metadata :: json

definition create_alert :: "Database \<Rightarrow> alert_data \<Rightarrow> error + string \<times> Database" where
  "create_alert d ad =
     (if ad_id ad \<in> set (map a_id (alerts d)) then Inl IntegrityError
      else Inr (ad_id ad,
        d\<lparr>alerts := alerts d @
          [\<lparr>a_id = ad_id ad, a_machine_id = ad_machine_id ad, a_alert_type = ad_alert_type ad,
            a_severity = ad_severity ad, a_message = ad_message ad,
            a_created_at = ad_created_at ad, a_state = ''ACTIVE'',
            a_acknowledged_by = None, a_acknowledged_at = None, a_resolved_by = None,
            a_resolved_at = None, a_resolution_notes = None, a_root_cause = None,
            a_downtime_minutes = None, a_metadata = ad_metadata ad\<rparr>]\<rparr>))"

definition get_alert :: "Database \<Rightarrow> string \<Rightarrow> Alert option" where
  "get_alert d alert_id = find (\<lambda>a. a_id a = alert_id) (alerts d)"

definition is_open_state :: "string \<Rightarrow> bool" where
  "is_open_state s = (s = ''ACTIVE'' \<or> s = ''ACKNOWLEDGED'' \<or> s = ''IN_PROGRESS'')"

definition db_acknowledge_alert :: "Database \<Rightarrow> string \<Rightarrow> string \<Rightarrow> time \<Rightarrow> bool \<times> Database" where
  "db_acknowledge_alert d alert_id operator_id now =
     (let hit = (\<lambda>a. a_id a = alert_id \<and> a_state a = ''ACTIVE'');
          rowcount = length (filter hit (alerts d))
      in (0 < rowcount,
          d\<lparr>alerts := map (\<lambda>a. if hit a
                               then a\<lparr>a_state := ''ACKNOWLEDGED'',
                                      a_acknowledged_by := Some operator_id,
                                      a_acknowledged_at := Some now\<rparr>
                               else a) (alerts d)\<rparr>))"

definition db_resolve_alert ::
  "Database \<Rightarrow> string \<Rightarrow> string \<Rightarrow> string \<Rightarrow> string \<Rightarrow> int \<Rightarrow> time \<Rightarrow> error + bool \<times> Database" where
  "db_resolve_alert d alert_id operator_id root_cause resolution_notes downtime_minutes now =
     (case find (\<lambda>a. a_id a = alert_id) (alerts d) of
        None \<Rightarrow> Inr (False, d)
      | Some alert \<Rightarrow>
          let resolved_at = now;
              hit = (\<lambda>a. a_id a = alert_id
                          \<and> (a_state a = ''ACKNOWLEDGED'' \<or> a_state a = ''IN_PROGRESS''));
              rowcount = length (filter hit (alerts d));
              updated = map (\<lambda>a. if hit a
                                   then a\<lparr>a_state := ''RESOLVED'',
                                          a_resolved_by := Some operator_id,
                                          a_resolved_at := Some resolved_at,
                                          a_resolution_notes := Some resolution_notes,
                                          a_root_cause := Some root_cause,
                                          a_downtime_minutes := Some downtime_minutes\<rparr>
                                   else a) (alerts d)
          in if \<not> sqlite_integer downtime_minutes then Inl OverflowError
             else if rowcount = 0 then Inr (False, d)
             else
               let log_id = ''LOG-'' @ alert_id
               in if log_id \<in> set (map l_id (maintenance_logs d)) then Inl IntegrityError
                  else Inr (True,
                    d\<lparr>alerts := updated,
                      maintenance_logs := maintenance_logs d @
                        [\<lparr>l_id = log_id, l_machine_id = a_machine_id alert,
                          l_alert_id = Some alert_id, l_created_at = a_created_at alert,
                          l_resolved_at = resolved_at, l_operator = operator_id,
                          l_root_cause = root_cause, l_resolution_notes = resolution_notes,
                          l_downtime_minutes = downtime_minutes, l_severity = a_severity alert,
                          l_alert_type = a_alert_type alert,
                          l_metadata = a_metadata alert\<rparr>]\<rparr>))"

definition check_duplicate_alert :: "Database \<Rightarrow> string \<Rightarrow> string \<Rightarrow> bool" where
  "check_duplicate_alert d machine_id alert_type =
     (0 < length (filter (\<lambda>a. a_machine_id a = machine_id \<and> a_alert_type a = alert_type
                               \<and> is_open_state (a_state a)) (alerts d)))"

text \<open>
  The dictionary \<open>log_data\<close> of \<open>create_maintenance_log\<close>: every key is optional.
  \<open>ld_duration_minutes\<close> is the integer \<open>int(duration_hours * 60)\<close> that Python computes
  from the key \<open>duration_hours\<close> when it is present.
  \<open>stamp\<close> is the text of \<open>now.strftime('%Y%m%d%H%M%S')\<close>.
\<close>

record log_data =
  ld_id :: "string option"
  ld_machine_id :: "string option"
  ld_alert_id :: "string option"
  ld_resolved_at :: "time option"
  ld_operator :: "string option"
  ld_performed_by :: "string option"
  ld_root_cause :: "string option"
  ld_action :: "string option"
  ld_resolution_notes :: "string option"
  ld_notes :: "string option"
  ld_downtime_minutes :: "int option"
  ld_duration_minutes :: "int option"
  ld_severity :: "string option"
  ld_alert_type :: "string option"
  ld_metadata :: "json option"

definition or_else :: "'a option \<Rightarrow> 'a \<Rightarrow> 'a" where
  "or_else v dflt = (case v of Some x \<Rightarrow> x | None \<Rightarrow> dflt)"

definition create_maintenance_log ::
  "Database \<Rightarrow> log_data \<Rightarrow> time \<Rightarrow> string \<Rightarrow> error + string \<times> Database" where
  "create_maintenance_log d ld now stamp =
     (let log_id = or_else (ld_id ld) (''LOG-'' @ stamp);
          downtime_minutes =
            or_else (ld_downtime_minutes ld) (or_else (ld_duration_minutes ld) 60)
      in if \<not> sqlite_integer downtime_minutes then Inl OverflowError
         else if log_id \<in> set (map l_id (maintenance_logs d)) then Inl IntegrityError
         else Inr (log_id,
           d\<lparr>maintenance_logs := maintenance_logs d @
             [\<lparr>l_id = log_id,
               l_machine_id = or_else (ld_machine_id ld) ''M-001'',
               l_alert_id = ld_alert_id ld,
               l_created_at = now,
               l_resolved_at = or_else (ld_resolved_at ld) now,
               l_operator = or_else (ld_operator ld) (or_else (ld_performed_by ld) ''System''),
               l_root_cause = or_else (ld_root_cause ld) (or_else (ld_action ld) ''Maintenance''),
               l_resolution_notes = or_else (ld_resolution_notes ld) (or_else (ld_notes ld) []),
               l_downtime_minutes = downtime_minutes,
               l_severity = or_else (ld_severity ld) ''info'',
               l_alert_type = or_else (ld_alert_type ld) (or_else (ld_action ld) ''maintenance''),
               l_metadata = or_else (ld_metadata ld) (JObj [])\<rparr>]\<rparr>))"

definition delete_maintenance_log :: "Database \<Rightarrow> string \<Rightarrow> bool \<times> Database" where
  "delete_maintenance_log d log_id =
     (0 < length (filter (\<lambda>l. l_id l = log_id) (maintenance_logs d)),
      d\<lparr>maintenance_logs := filter (\<lambda>l. l_id l \<noteq> log_id) (maintenance_logs d)\<rparr>)"

definition ALERT_RETENTION_DAYS :: real where "ALERT_RETENTION_DAYS = 90"
definition LOG_RETENTION_DAYS :: real where "LOG_RETENTION_DAYS = 730"

definition cleanup_old_data :: "Database \<Rightarrow> time \<Rightarrow> (nat \<times> nat) \<times> Database" where
  "cleanup_old_data d now =
     (let alert_cutoff = now - ALERT_RETENTION_DAYS * 86400;
          old = (\<lambda>a. a_state a = ''RESOLVED''
                      \<and> (case a_resolved_at a of Some t \<Rightarrow> t < alert_cutoff | None \<Rightarrow> False));
          archived_count = length (filter old (alerts d));
          log_cutoff = now - LOG_RETENTION_DAYS * 86400;
          deleted_count = length (filter (\<lambda>l. l_resolved_at l < log_cutoff) (maintenance_logs d))
      in ((archived_count, deleted_count),
          d\<lparr>alerts := map (\<lambda>a. if old a then a\<lparr>a_state := ''LOGGED''\<rparr> else a) (alerts d),
            maintenance_logs :=
              filter (\<lambda>l. \<not> l_resolved_at l < log_cutoff) (maintenance_logs d)\<rparr>))"

section \<open>alert\_manager.py\<close>

record PendingAlert =
  p_alert_type :: string
  p_severity :: string
  first_triggered :: time
  last_triggered :: time
  trigger_count :: nat

definition PendingAlert_init :: "string \<Rightarrow> string \<Rightarrow> time \<Rightarrow> PendingAlert" where
  "PendingAlert_init alert_type severity first =
     \<lparr>p_alert_type = alert_type, p_severity = severity, first_triggered = first,
      last_triggered = first, trigger_count = 1\<rparr>"

definition pending_update :: "PendingAlert \<Rightarrow> time \<Rightarrow> PendingAlert" where
  "pending_update p now = p\<lparr>last_triggered := now, trigger_count := trigger_count p + 1\<rparr>"

definition is_persistent :: "PendingAlert \<Rightarrow> real \<Rightarrow> bool" where
  "is_persistent p required_seconds =
     (let duration = last_triggered p - first_triggered p in required_seconds \<le> duration)"

record AlertManager =
  db :: Database
  window_manager :: windows
  pending_alerts :: "string \<times> string \<rightharpoonup> PendingAlert"
  recent_alerts :: "string \<rightharpoonup> time list"

definition AlertManager_init :: "Database \<Rightarrow> AlertManager" where
  "AlertManager_init d =
     \<lparr>db = d, window_manager = Map.empty, pending_alerts = Map.empty,
      recent_alerts = Map.empty\<rparr>"

text \<open>
  \<open>uuid8\<close> stands for \<open>uuid.uuid4().hex[:8].upper()\<close>, the text the generator yields in
  this call. A call that raises leaves the manager as it was at the raise.
\<close>

definition create_alert_if_new ::
  "AlertManager \<Rightarrow> string \<Rightarrow> string \<Rightarrow> string \<Rightarrow> string \<Rightarrow> json \<Rightarrow> string \<Rightarrow> time
     \<Rightarrow> (error + string option) \<times> AlertManager" where
  "create_alert_if_new am machine_id alert_type severity message metadata uuid8 now =
     (if check_duplicate_alert (db am) machine_id alert_type then (Inr None, am)
      else
        let alert_id = ''ALERT-'' @ uuid8;
            alert_data = \<lparr>ad_id = alert_id, ad_machine_id = machine_id,
                          ad_alert_type = alert_type, ad_severity = severity,
                          ad_message = message, ad_created_at = now, ad_metadata = metadata\<rparr>
        in case create_alert (db am) alert_data of
             Inl e \<Rightarrow> (Inl e, am)
           | Inr (_, d') \<Rightarrow>
               (Inr (Some alert_id),
                am\<lparr>db := d',
                   recent_alerts := (recent_alerts am)
                     (machine_id \<mapsto> or_else (recent_alerts am machine_id) [] @ [now])\<rparr>))"

definition process_alert_with_persistence ::
  "AlertManager \<Rightarrow> string \<Rightarrow> string \<Rightarrow> string \<Rightarrow> string \<Rightarrow> json \<Rightarrow> string \<Rightarrow> time
     \<Rightarrow> (error + string option) \<times> AlertManager" where
  "process_alert_with_persistence am machine_id alert_type severity message metadata uuid8 now =
     (let key = (machine_id, alert_type);
          required_seconds = or_else (PERSISTENCE_WINDOWS alert_type) 30
      in case pending_alerts am key of
           Some pending0 \<Rightarrow>
             let pending = pending_update pending0 now;
                 am1 = am\<lparr>pending_alerts := (pending_alerts am)(key \<mapsto> pending)\<rparr>
             in if is_persistent pending required_seconds then
                  create_alert_if_new
                    (am1\<lparr>pending_alerts := (pending_alerts am1)(key := None)\<rparr>)
                    machine_id alert_type severity message metadata uuid8 now
                else (Inr None, am1)
         | None \<Rightarrow>
             (Inr None,
              am\<lparr>pending_alerts :=
                   (pending_alerts am)(key \<mapsto> PendingAlert_init alert_type severity now)\<rparr>))"

definition clear_pending_alert :: "AlertManager \<Rightarrow> string \<Rightarrow> string \<Rightarrow> AlertManager" where
  "clear_pending_alert am machine_id alert_type =
     am\<lparr>pending_alerts := (pending_alerts am)((machine_id, alert_type) := None)\<rparr>"

definition check_multi_sensor_confirmation :: "sensor_data \<Rightarrow> string \<Rightarrow> bool" where
  "check_multi_sensor_confirmation sd severity =
     (if severity \<noteq> ''critical'' \<or> \<not> MULTI_SENSOR_REQUIRED_FOR_CRITICAL then True
      else
        let thresholds = SENSOR_DEGRADATION_THRESHOLDS;
            degraded_count =
                (if or_else (thresholds ''vibration_x'') 1.5 < get_or sd ''vibration_x'' 0
                 then 1 else 0)
              + (if or_else (thresholds ''vibration_y'') 1.5 < get_or sd ''vibration_y'' 0
                 then 1 else 0)
              + (if or_else (thresholds ''temperature'') 85 < get_or sd ''temperature'' 0
                 then 1 else 0)
              + (if get_or sd ''pressure'' 200 < or_else (thresholds ''pressure_low'') 90
                 then 1 else 0)
              + (if get_or sd ''rpm'' 1500 < or_else (thresholds ''rpm_low'') 1350
                 then 1 else (0::nat))
        in MIN_DEGRADED_SENSORS_FOR_CRITICAL \<le> degraded_count)"

definition check_rate_limit :: "AlertManager \<Rightarrow> string \<Rightarrow> time \<Rightarrow> bool \<times> AlertManager" where
  "check_rate_limit am machine_id now =
     (let one_minute_ago = now - 60;
          recent = filter (\<lambda>t. one_minute_ago < t) (or_else (recent_alerts am machine_id) [])
      in (length recent < MAX_ALERTS_PER_MACHINE_PER_MINUTE,
          am\<lparr>recent_alerts := (recent_alerts am)(machine_id \<mapsto> recent)\<rparr>))"

definition cleanup_old_pending_alerts :: "AlertManager \<Rightarrow> time \<Rightarrow> AlertManager" where
  "cleanup_old_pending_alerts am now =
     (let stale_threshold = now - 120
      in am\<lparr>pending_alerts :=
              (\<lambda>key. case pending_alerts am key of
                        Some pending \<Rightarrow>
                          if last_triggered pending < stale_threshold then None
                          else Some pending
                      | None \<Rightarrow> None)\<rparr>)"

definition cleanup_old_rate_limit_data :: "AlertManager \<Rightarrow> time \<Rightarrow> AlertManager" where
  "cleanup_old_rate_limit_data am now =
     (let one_minute_ago = now - 60
      in am\<lparr>recent_alerts :=
              (\<lambda>machine_id. case recent_alerts am machine_id of
                        Some ts \<Rightarrow>
                          let kept = filter (\<lambda>t. one_minute_ago < t) ts
                          in if kept = [] then None else Some kept
                      | None \<Rightarrow> None)\<rparr>)"

text \<open>
  \<open>check_and_create_alerts\<close> runs three sections in turn (RUL, health, anomaly); each may
  append one identifier to \<open>created_alerts\<close>, and an exception in one ends the call.
  The rounding errors of one call are collected in a record: \<open>fp_risk\<close> for the risk score,
  \<open>fp_mean\<close> and \<open>fp_trend\<close> for the evaluation of the window of each alert type.
  \<open>render d x\<close> is the text \<open>f"{x:.df}"\<close> of the double \<open>x\<close>.
\<close>

record fp_errors =
  fp_risk :: real
  fp_mean :: "string \<Rightarrow> real"
  fp_trend :: "string \<Rightarrow> real"

definition collect ::
  "(error + string option) \<times> AlertManager \<Rightarrow> string list \<Rightarrow> (error + string list) \<times> AlertManager" where
  "collect r created_alerts =
     (case r of
        (Inl e, am) \<Rightarrow> (Inl e, am)
      | (Inr None, am) \<Rightarrow> (Inr created_alerts, am)
      | (Inr (Some alert_id), am) \<Rightarrow> (Inr (created_alerts @ [alert_id]), am))"

definition rul_section ::
  "AlertManager \<Rightarrow> string \<Rightarrow> sensor_data \<Rightarrow> real \<Rightarrow> fp_errors \<Rightarrow> (nat \<Rightarrow> real \<Rightarrow> string)
     \<Rightarrow> string \<Rightarrow> time \<Rightarrow> string list \<Rightarrow> (error + string list) \<times> AlertManager" where
  "rul_section am machine_id sd rul fp render uuid8 now created_alerts =
     (if rul < RUL_CRITICAL_TRIGGER then
        let (window_eval, ws) = wm_evaluate (window_manager am) machine_id ''critical_rul''
                (fp_mean fp ''critical_rul'') (fp_trend fp ''critical_rul'') now;
            am1 = am\<lparr>window_manager := ws\<rparr>
        in if may_proceed window_eval \<and> check_multi_sensor_confirmation sd ''critical'' then
             collect (process_alert_with_persistence am1 machine_id ''critical_rul'' ''critical''
                (''Critical: RUL only '' @ render 1 rul @ '' hours remaining'')
                (JObj [(''rul_hours'', JNum rul), (''sensors'', json_of_sensors sd),
                       (''window_eval'',
                        JObj [(''mean_risk'', JNum (mean_risk window_eval)),
                              (''trend'', JNum (risk_trend window_eval)),
                              (''pct_above'', JNum (pct_above_threshold window_eval))])])
                uuid8 now) created_alerts
           else (Inr created_alerts, am1)
      else if rul < RUL_WARNING_TRIGGER then
        let (window_eval, ws) = wm_evaluate (window_manager am) machine_id ''warning_rul''
                (fp_mean fp ''warning_rul'') (fp_trend fp ''warning_rul'') now;
            am1 = am\<lparr>window_manager := ws\<rparr>
        in if may_proceed window_eval then
             collect (process_alert_with_persistence am1 machine_id ''warning_rul'' ''warning''
                (''Warning: RUL '' @ render 1 rul @ '' hours, maintenance recommended'')
                (JObj [(''rul_hours'', JNum rul),
                       (''window_eval'',
                        JObj [(''mean_risk'', JNum (mean_risk window_eval)),
                              (''trend'', JNum (risk_trend window_eval))])])
                uuid8 now) created_alerts
           else (Inr created_alerts, am1)
      else
        let am1 = (if RUL_WARNING_CLEAR < rul
                   then clear_pending_alert am machine_id ''warning_rul'' else am);
            am2 = (if RUL_CRITICAL_CLEAR < rul
                   then clear_pending_alert am1 machine_id ''critical_rul'' else am1)
        in (Inr created_alerts, am2))"

definition health_section ::
  "AlertManager \<Rightarrow> string \<Rightarrow> sensor_data \<Rightarrow> real \<Rightarrow> fp_errors \<Rightarrow> (nat \<Rightarrow> real \<Rightarrow> string)
     \<Rightarrow> string \<Rightarrow> time \<Rightarrow> string list \<Rightarrow> (error + string list) \<times> AlertManager" where
  "health_section am machine_id sd health fp render uuid8 now created_alerts =
     (if health < HEALTH_CRITICAL_TRIGGER then
        let (window_eval, ws) =
              wm_evaluate (window_manager am) machine_id ''low_health_critical''
                (fp_mean fp ''low_health_critical'') (fp_trend fp ''low_health_critical'') now;
            am1 = am\<lparr>window_manager := ws\<rparr>
        in if may_proceed window_eval \<and> check_multi_sensor_confirmation sd ''critical'' then
             collect (process_alert_with_persistence am1 machine_id ''low_health_critical''
                ''critical''
                (''Critical: Health score '' @ render 1 health @ ''%'')
                (JObj [(''health_score'', JNum health), (''sensors'', json_of_sensors sd),
                       (''window_eval'',
                        JObj [(''mean_risk'', JNum (mean_risk window_eval)),
                              (''trend'', JNum (risk_trend window_eval))])])
                uuid8 now) created_alerts
           else (Inr created_alerts, am1)
      else if health < HEALTH_WARNING_TRIGGER then
        let (window_eval, ws) =
              wm_evaluate (window_manager am) machine_id ''low_health_warning''
                (fp_mean fp ''low_health_warning'') (fp_trend fp ''low_health_warning'') now;
            am1 = am\<lparr>window_manager := ws\<rparr>
        in if may_proceed window_eval then
             collect (process_alert_with_persistence am1 machine_id ''low_health_warning''
                ''warning''
                (''Warning: Health score '' @ render 1 health @ ''%'')
                (JObj [(''health_score'', JNum health)])
                uuid8 now) created_alerts
           else (Inr created_alerts, am1)
      else
        let am1 = (if HEALTH_WARNING_CLEAR < health
                   then clear_pending_alert am machine_id ''low_health_warning'' else am);
            am2 = (if HEALTH_CRITICAL_CLEAR < health
                   then clear_pending_alert am1 machine_id ''low_health_critical'' else am1)
        in (Inr created_alerts, am2))"

definition anomaly_section ::
  "AlertManager \<Rightarrow> string \<Rightarrow> sensor_data \<Rightarrow> bool \<Rightarrow> real \<Rightarrow> fp_errors
     \<Rightarrow> (nat \<Rightarrow> real \<Rightarrow> string) \<Rightarrow> string \<Rightarrow> time \<Rightarrow> string list
     \<Rightarrow> (error + string list) \<times> AlertManager" where
  "anomaly_section am machine_id sd is_anomaly anomaly_score fp render uuid8 now created_alerts =
     (if is_anomaly then
        let (window_eval, ws) =
              wm_evaluate (window_manager am) machine_id ''anomaly_detected''
                (fp_mean fp ''anomaly_detected'') (fp_trend fp ''anomaly_detected'') now;
            am1 = am\<lparr>window_manager := ws\<rparr>;
            severity = (if ANOMALY_CRITICAL_SCORE < anomaly_score
                        then ''critical'' else ''warning'')
        in if may_proceed window_eval then
             collect (process_alert_with_persistence am1 machine_id ''anomaly_detected'' severity
                (''Anomaly detected (score: '' @ render 2 anomaly_score @ '')'')
                (JObj [(''anomaly_score'', JNum anomaly_score),
                       (''sensors'', json_of_sensors sd)])
                uuid8 now) created_alerts
           else (Inr created_alerts, am1)
      else (Inr created_alerts, clear_pending_alert am machine_id ''anomaly_detected''))"

definition feed_windows ::
  "AlertManager \<Rightarrow> string \<Rightarrow> sensor_data \<Rightarrow> real \<Rightarrow> real \<Rightarrow> real \<Rightarrow> time \<Rightarrow> AlertManager" where
  "feed_windows am machine_id sd risk health rul now =
     am\<lparr>window_manager :=
          foldl (\<lambda>ws alert_type. wm_add_sample ws machine_id alert_type risk health rul sd now)
            (window_manager am)
            [''warning_rul'', ''critical_rul'', ''low_health_warning'',
             ''low_health_critical'', ''anomaly_detected'']\<rparr>"

text \<open>
  \<open>uuids = (u1, u2, u3)\<close> are the identifiers the generator yields in the RUL, health and
  anomaly sections, should the section reach the creation of an alert.
\<close>

definition check_and_create_alerts ::
  "AlertManager \<Rightarrow> string \<Rightarrow> sensor_data \<Rightarrow> real \<Rightarrow> real \<Rightarrow> bool \<Rightarrow> real \<Rightarrow> fp_errors
     \<Rightarrow> (nat \<Rightarrow> real \<Rightarrow> string) \<Rightarrow> string \<times> string \<times> string \<Rightarrow> time
     \<Rightarrow> (error + string list) \<times> AlertManager" where
  "check_and_create_alerts am0 machine_id sd rul health is_anomaly anomaly_score fp render uuids
     now =
     (let (u1, u2, u3) = uuids;
          am1 = cleanup_old_pending_alerts am0 now;
          am2 = cleanup_old_rate_limit_data am1 now;
          (within_limit, am3) = check_rate_limit am2 machine_id now
      in if \<not> within_limit then (Inr [], am3)
         else
           let risk = calculate_risk_score (fp_risk fp) rul health anomaly_score;
               am4 = feed_windows am3 machine_id sd risk health rul now
           in case rul_section am4 machine_id sd rul fp render u1 now [] of
                (Inl e, am5) \<Rightarrow> (Inl e, am5)
              | (Inr created1, am5) \<Rightarrow>
                  (case health_section am5 machine_id sd health fp render u2 now created1 of
                     (Inl e, am6) \<Rightarrow> (Inl e, am6)
                   | (Inr created2, am6) \<Rightarrow>
                       anomaly_section am6 machine_id sd is_anomaly anomaly_score fp render u3
                         now created2))"

text \<open>
  The lifecycle operations answer with a dictionary: a failure with its message, or the
  fields of the success. The lines a success prints are not part of the answer; the console
  is taken to accept them.
\<close>

datatype response =
    Failure string
  | Acknowledged string string time
  | Resolved string string time string

definition acknowledge_alert ::
  "AlertManager \<Rightarrow> string \<Rightarrow> string \<Rightarrow> time \<Rightarrow> response \<times> AlertManager" where
  "acknowledge_alert am alert_id operator_id now =
     (if operator_id = [] \<or> length operator_id < 3 then (Failure ''Invalid operator ID'', am)
      else case get_alert (db am) alert_id of
             None \<Rightarrow> (Failure ''Alert not found'', am)
           | Some alert \<Rightarrow>
               if a_state alert \<noteq> ''ACTIVE'' then
                 (Failure (''Alert is '' @ a_state alert
                           @ '', can only acknowledge ACTIVE alerts''), am)
               else
                 let (success, d') = db_acknowledge_alert (db am) alert_id operator_id now
                 in if success then (Acknowledged alert_id operator_id now, am\<lparr>db := d'\<rparr>)
                    else (Failure ''Failed to acknowledge alert'', am\<lparr>db := d'\<rparr>))"

definition resolve_alert ::
  "AlertManager \<Rightarrow> string \<Rightarrow> string \<Rightarrow> string \<Rightarrow> string \<Rightarrow> int \<Rightarrow> time
     \<Rightarrow> (error + response) \<times> AlertManager" where
  "resolve_alert am alert_id operator_id root_cause resolution_notes downtime_minutes now =
     (if operator_id = [] \<or> length operator_id < 3 then
        (Inr (Failure ''Invalid operator ID''), am)
      else if root_cause = [] \<or> length root_cause < MIN_ROOT_CAUSE_LENGTH then
        (Inr (Failure (''Root cause must be at least '' @ str_nat MIN_ROOT_CAUSE_LENGTH
                       @ '' characters'')), am)
      else if resolution_notes = [] \<or> length resolution_notes < MIN_RESOLUTION_NOTES_LENGTH then
        (Inr (Failure (''Resolution notes must be at least ''
                       @ str_nat MIN_RESOLUTION_NOTES_LENGTH @ '' characters'')), am)
      else if downtime_minutes < 0 then (Inr (Failure ''Downtime cannot be negative''), am)
      else case get_alert (db am) alert_id of
             None \<Rightarrow> (Inr (Failure ''Alert not found''), am)
           | Some alert \<Rightarrow>
               if \<not> (a_state alert = ''ACKNOWLEDGED'' \<or> a_state alert = ''IN_PROGRESS'') then
                 (Inr (Failure (''Alert is '' @ a_state alert
                       @ '', can only resolve ACKNOWLEDGED or IN_PROGRESS alerts'')), am)
               else
                 case db_resolve_alert (db am) alert_id operator_id root_cause
                        resolution_notes downtime_minutes now of
                   Inl e \<Rightarrow> (Inl e, am)
                 | Inr (success, d') \<Rightarrow>
                     if success then
                       (Inr (Resolved alert_id operator_id now (''LOG-'' @ alert_id)),
                        am\<lparr>db := d'\<rparr>)
                     else (Inr (Failure ''Failed to resolve alert''), am\<lparr>db := d'\<rparr>))"

section \<open>rul\_predictor.py: the raw model\<close>

text \<open>The three piecewise maps of \<open>_heuristic_rul\<close>, named after the variables they set.\<close>

definition vib_score_of :: "real \<Rightarrow> real" where
  "vib_score_of avg_vib =
     (if avg_vib \<le> 0.65 then 100
      else if avg_vib \<le> 1.2 then 100 - ((avg_vib - 0.65) / 0.55) * 20
      else if avg_vib \<le> 2.5 then 80 - ((avg_vib - 1.2) / 1.3) * 50
      else max 0 (30 - ((avg_vib - 2.5) / 1.0) * 30))"

definition temp_score_of :: "real \<Rightarrow> real" where
  "temp_score_of temp =
     (if temp < 20 then
        (if temp \<le> 7.5 then 100
         else if temp \<le> 10.0 then 100 - ((temp - 7.5) / 2.5) * 30
         else if temp \<le> 15.0 then 70 - ((temp - 10.0) / 5.0) * 50
         else max 0 (20 - ((temp - 15.0) / 5.0) * 20))
      else if 60 < temp then
        (if temp \<le> 72 then 100
         else if temp \<le> 85 then 100 - ((temp - 72) / 13) * 25
         else if temp \<le> 95 then 75 - ((temp - 85) / 10) * 45
         else max 0 (30 - ((temp - 95) / 10) * 30))
      else
        (if temp \<le> 52 then 100
         else if temp \<le> 70 then 100 - ((temp - 52) / 18) * 25
         else if temp \<le> 85 then 75 - ((temp - 70) / 15) * 45
         else max 0 (30 - ((temp - 85) / 15) * 30)))"

definition rul_of_health :: "real \<Rightarrow> real" where
  "rul_of_health health =
     (if 70 \<le> health then 72 + ((health - 70) / 30) * 72
      else if 40 \<le> health then 24 + ((health - 40) / 30) * 48
      else (health / 40) * 24)"

definition heuristic_rul :: "sensor_data \<Rightarrow> real \<times> real" where
  "heuristic_rul sd =
     (let vib_x = get_or sd ''vibration_x'' 0.5;
          vib_y = get_or sd ''vibration_y'' 0.5;
          temp = get_or sd ''temperature'' 70;
          avg_vib = (vib_x + vib_y) / 2;
          vib_score = vib_score_of avg_vib;
          temp_score = temp_score_of temp;
          health0 = vib_score * 0.6 + temp_score * 0.4;
          health = min 100 (max 0 health0);
          rul = rul_of_health health
      in (py_round rul 1, py_round health 2))"

definition raw_predict_rul :: "sensor_data \<Rightarrow> string \<Rightarrow> real \<times> real" where
  "raw_predict_rul sd machine_id = heuristic_rul sd"

section \<open>ml\_stabilizer.py\<close>

record StabilizedRULPredictor =
  prediction_history :: "string \<rightharpoonup> (time \<times> real \<times> real) list"
  last_prediction_time :: "string \<rightharpoonup> time"
  stable_predictions :: "string \<rightharpoonup> real \<times> real"

definition StabilizedRULPredictor_init :: StabilizedRULPredictor where
  "StabilizedRULPredictor_init =
     \<lparr>prediction_history = Map.empty, last_prediction_time = Map.empty,
      stable_predictions = Map.empty\<rparr>"

definition stabilize_prediction ::
  "StabilizedRULPredictor \<Rightarrow> string \<Rightarrow> real \<Rightarrow> real \<Rightarrow> time
     \<Rightarrow> (real \<times> real) \<times> StabilizedRULPredictor" where
  "stabilize_prediction st machine_id raw_rul raw_health timestamp =
     (let history = or_else (prediction_history st machine_id) []
      in if length history = 0 then
           ((raw_rul, raw_health),
            st\<lparr>prediction_history :=
                 (prediction_history st)(machine_id \<mapsto> history @ [(timestamp, raw_rul, raw_health)])\<rparr>)
         else
           let (prev_timestamp, prev_rul, prev_health) = last history;
               ema_rul = EMA_ALPHA * raw_rul + (1 - EMA_ALPHA) * prev_rul;
               ema_health = EMA_ALPHA * raw_health + (1 - EMA_ALPHA) * prev_health;
               stable_rul0 = min ema_rul prev_rul;
               stable_health0 = (if prev_health * 1.05 < ema_health then prev_health
                                 else ema_health);
               stable_rul = max MIN_RUL_HOURS (min stable_rul0 MAX_RUL_HOURS);
               stable_health = max 0 (min 100 stable_health0);
               appended = history @ [(timestamp, stable_rul, stable_health)];
               kept = (if 50 < length appended then tl appended else appended)
           in ((py_round stable_rul 1, py_round stable_health 2),
               st\<lparr>prediction_history := (prediction_history st)(machine_id \<mapsto> kept)\<rparr>))"

definition predict_rul ::
  "StabilizedRULPredictor \<Rightarrow> sensor_data \<Rightarrow> string \<Rightarrow> bool \<Rightarrow> time
     \<Rightarrow> (real \<times> real) \<times> StabilizedRULPredictor" where
  "predict_rul st sd machine_id bypass_smoothing now =
     (if bypass_smoothing then
        (raw_predict_rul sd machine_id,
         st\<lparr>prediction_history := (prediction_history st)(machine_id := None),
            stable_predictions := (stable_predictions st)(machine_id := None),
            last_prediction_time := (last_prediction_time st)(machine_id := None)\<rparr>)
      else
        let current_time = now;
            cached = (case last_prediction_time st machine_id of
                        Some t \<Rightarrow>
                          if current_time - t < MIN_PREDICTION_INTERVAL_SECONDS
                          then stable_predictions st machine_id else None
                      | None \<Rightarrow> None)
        in case cached of
             Some p \<Rightarrow> (p, st)
           | None \<Rightarrow>
               let (raw_rul, raw_health) = raw_predict_rul sd machine_id;
                   (stable, st1) =
                     stabilize_prediction st machine_id raw_rul raw_health current_time
               in (stable,
                   st1\<lparr>stable_predictions := (stable_predictions st1)(machine_id \<mapsto> stable),
                       last_prediction_time :=
                         (last_prediction_time st1)(machine_id \<mapsto> current_time)\<rparr>))"

definition reset_machine :: "StabilizedRULPredictor \<Rightarrow> string \<Rightarrow> StabilizedRULPredictor" where
  "reset_machine st machine_id =
     st\<lparr>prediction_history :=
          (if prediction_history st machine_id \<noteq> None
           then (prediction_history st)(machine_id \<mapsto> [])
           else prediction_history st),
        stable_predictions := (stable_predictions st)(machine_id := None),
        last_prediction_time := (last_prediction_time st)(machine_id := None)\<rparr>"

text \<open>
  A run of calls on one predictor: each call names its machine, its sample, whether it
  bypasses smoothing and the instant of the call. \<open>predict_run\<close> gives the values returned,
  in order.
\<close>

fun predict_run ::
  "StabilizedRULPredictor \<Rightarrow> (string \<times> sensor_data \<times> bool \<times> time) list
     \<Rightarrow> (string \<times> real \<times> real) list" where
  "predict_run st [] = []"
| "predict_run st ((machine_id, sd, bypass, now) # calls) =
     (let (res, st') = predict_rul st sd machine_id bypass now
      in (machine_id, res) # predict_run st' calls)"

section \<open>metrics\_tracker.py\<close>

datatype PredictionOutcome =
  TRUE_POSITIVE | FALSE_POSITIVE | TRUE_NEGATIVE | FALSE_NEGATIVE | PENDING

record PredictionRecord =
  prediction_id :: string
  pr_machine_id :: string
  predicted_at :: time
  predicted_failure_time :: time
  predicted_ttf_hours :: real
  health_score_at_prediction :: real
  anomaly_score_at_prediction :: real
  confidence :: real
  outcome :: PredictionOutcome
  actual_failure_time :: "time option"
  pr_lead_time_hours :: "real option"
  pr_resolution_notes :: string

record FailureEvent =
  event_id :: string
  fe_machine_id :: string
  occurred_at :: time
  was_predicted :: bool
  fe_prediction_id :: "string option"
  fe_lead_time_hours :: "real option"
  event_type :: string

text \<open>A Python dictionary in insertion order; an assignment to a present key keeps its place.\<close>

definition dict_set :: "('k \<times> 'v) list \<Rightarrow> 'k \<Rightarrow> 'v \<Rightarrow> ('k \<times> 'v) list" where
  "dict_set d k v =
     (if k \<in> set (map fst d) then map (\<lambda>(k', v'). if k' = k then (k', v) else (k', v')) d
      else d @ [(k, v)])"

record MetricsTracker =
  predictions :: "(string \<times> PredictionRecord) list"
  failures :: "(string \<times> FailureEvent) list"
  prediction_counter :: nat
  failure_counter :: nat
  prediction_window_hours :: real
  min_lead_time_hours :: real
  health_critical_threshold :: real

definition MetricsTracker_init :: MetricsTracker where
  "MetricsTracker_init =
     \<lparr>predictions = [], failures = [], prediction_counter = 0, failure_counter = 0,
      prediction_window_hours = 48, min_lead_time_hours = 2, health_critical_threshold = 30\<rparr>"

definition record_prediction ::
  "MetricsTracker \<Rightarrow> string \<Rightarrow> real \<Rightarrow> real \<Rightarrow> real \<Rightarrow> real \<Rightarrow> time \<Rightarrow> string \<times> MetricsTracker" where
  "record_prediction mt machine_id ttf_hours health anomaly conf now =
     (let counter = prediction_counter mt + 1;
          pid = ''PRED-'' @ zfill 4 (str_nat counter);
          rec = \<lparr>prediction_id = pid, pr_machine_id = machine_id, predicted_at = now,
                 predicted_failure_time = now + ttf_hours * 3600,
                 predicted_ttf_hours = ttf_hours, health_score_at_prediction = health,
                 anomaly_score_at_prediction = anomaly, confidence = conf,
                 outcome = PENDING, actual_failure_time = None, pr_lead_time_hours = None,
                 pr_resolution_notes = []\<rparr>
      in (pid, mt\<lparr>prediction_counter := counter,
                  predictions := dict_set (predictions mt) pid rec\<rparr>))"

text \<open>
  The loop of \<open>record_failure\<close> over \<open>self.predictions.items()\<close>. The accumulator holds
  \<open>matching_prediction\<close> (with its key) and \<open>best_lead_time\<close>, which the loop sets together.
\<close>

fun find_matching ::
  "string \<Rightarrow> time \<Rightarrow> real \<Rightarrow> (string \<times> PredictionRecord) list
     \<Rightarrow> (string \<times> PredictionRecord \<times> real) option \<Rightarrow> (string \<times> PredictionRecord \<times> real) option" where
  "find_matching machine_id now window [] acc = acc"
| "find_matching machine_id now window ((pred_id, pred) # rest) acc =
     (if pr_machine_id pred \<noteq> machine_id then find_matching machine_id now window rest acc
      else if outcome pred \<noteq> PENDING then find_matching machine_id now window rest acc
      else
        let time_diff = (now - predicted_at pred) / 3600
        in if 0 < time_diff \<and> time_diff \<le> window then
             (case acc of
                None \<Rightarrow> find_matching machine_id now window rest (Some (pred_id, pred, time_diff))
              | Some (_, _, best_lead_time) \<Rightarrow>
                  if time_diff < best_lead_time
                  then find_matching machine_id now window rest (Some (pred_id, pred, time_diff))
                  else find_matching machine_id now window rest acc)
           else find_matching machine_id now window rest acc)"

definition record_failure ::
  "MetricsTracker \<Rightarrow> string \<Rightarrow> string \<Rightarrow> time \<Rightarrow> string \<times> MetricsTracker" where
  "record_failure mt machine_id ev_type now =
     (let counter = failure_counter mt + 1;
          failure_id = ''FAIL-'' @ zfill 4 (str_nat counter);
          matching = find_matching machine_id now (prediction_window_hours mt)
                       (predictions mt) None;
          failure = \<lparr>event_id = failure_id, fe_machine_id = machine_id, occurred_at = now,
                     was_predicted = (matching \<noteq> None),
                     fe_prediction_id = map_option (\<lambda>(_, pred, _). prediction_id pred) matching,
                     fe_lead_time_hours = map_option (\<lambda>(_, _, best). best) matching,
                     event_type = ev_type\<rparr>;
          mt1 = mt\<lparr>failure_counter := counter,
                   failures := dict_set (failures mt) failure_id failure\<rparr>
      in case matching of
           None \<Rightarrow> (failure_id, mt1)
         | Some (pred_id, _, best_lead_time) \<Rightarrow>
             (failure_id,
              mt1\<lparr>predictions :=
                    map (\<lambda>(k, p). if k = pred_id
                                   then (k, p\<lparr>outcome := TRUE_POSITIVE,
                                              actual_failure_time := Some now,
                                              pr_lead_time_hours := Some best_lead_time\<rparr>)
                                   else (k, p)) (predictions mt1)\<rparr>))"

section \<open>States the application can reach\<close>

text \<open>
  The rows of \<open>alerts\<close> that are open for a machine and an alert type, as
  \<open>check_duplicate_alert\<close> counts them.
\<close>

definition open_rows :: "Database \<Rightarrow> string \<Rightarrow> string \<Rightarrow> Alert list" where
  "open_rows d machine_id alert_type =
     filter (\<lambda>a. a_machine_id a = machine_id \<and> a_alert_type a = alert_type
                  \<and> is_open_state (a_state a)) (alerts d)"

text \<open>
  The entry points that write the store, called one after the other (the manager's lock
  serialises them) from an empty store: the sample path \<open>check_and_create_alerts\<close>, the two
  lifecycle operations, and the three store operations the server calls directly or that
  maintain the tables. \<open>update_maintenance_log\<close> rewrites columns of a log other than its
  key and is left out.
\<close>

inductive reachable :: "AlertManager \<Rightarrow> bool" where
  start: "reachable (AlertManager_init empty_database)"
| sample: "reachable am \<Longrightarrow>
     reachable (snd (check_and_create_alerts am machine_id sd rul health is_anomaly
                      anomaly_score fp render uuids now))"
| acknowledge: "reachable am \<Longrightarrow> reachable (snd (acknowledge_alert am alert_id operator_id now))"
| resolve: "reachable am \<Longrightarrow>
     reachable (snd (resolve_alert am alert_id operator_id root_cause resolution_notes
                      downtime_minutes now))"
| log_created: "reachable am \<Longrightarrow> create_maintenance_log (db am) ld now stamp = Inr (log_id, d')
     \<Longrightarrow> reachable (am\<lparr>db := d'\<rparr>)"
| log_deleted: "reachable am \<Longrightarrow>
     reachable (am\<lparr>db := snd (delete_maintenance_log (db am) log_id)\<rparr>)"
| cleaned: "reachable am \<Longrightarrow> reachable (am\<lparr>db := snd (cleanup_old_data (db am) now)\<rparr>)"

section \<open>Notions used in the statements\<close>

text \<open>The store invariant: no machine and alert type has two open rows.\<close>

definition one_open :: "Database \<Rightarrow> bool" where
  "one_open d = (\<forall>m t. length (open_rows d m t) \<le> 1)"

text \<open>The six preconditions of \<open>resolve\<close>, and the two shapes of its answer.\<close>

definition resolve_preconditions ::
  "AlertManager \<Rightarrow> string \<Rightarrow> string \<Rightarrow> string \<Rightarrow> string \<Rightarrow> int \<Rightarrow> bool" where
  "resolve_preconditions am alert_id operator_id root_cause notes downtime =
     (3 \<le> length operator_id \<and> 5 \<le> length root_cause \<and> 10 \<le> length notes \<and> 0 \<le> downtime
      \<and> (case get_alert (db am) alert_id of
            None \<Rightarrow> False
          | Some a \<Rightarrow> a_state a = ''ACKNOWLEDGED'' \<or> a_state a = ''IN_PROGRESS''))"

definition is_success :: "error + response \<Rightarrow> bool" where
  "is_success r = (case r of Inr (Resolved _ _ _ _) \<Rightarrow> True | _ \<Rightarrow> False)"

definition is_failure :: "error + response \<Rightarrow> bool" where
  "is_failure r = (case r of Inr (Failure _) \<Rightarrow> True | _ \<Rightarrow> False)"

text \<open>The row and the log that a successful \<open>resolve\<close> writes for the alert \<open>a\<close>.\<close>

definition resolved_row :: "Alert \<Rightarrow> string \<Rightarrow> string \<Rightarrow> string \<Rightarrow> int \<Rightarrow> time \<Rightarrow> Alert" where
  "resolved_row a operator_id root_cause notes downtime now =
     a\<lparr>a_state := ''RESOLVED'', a_resolved_by := Some operator_id, a_resolved_at := Some now,
       a_resolution_notes := Some notes, a_root_cause := Some root_cause,
       a_downtime_minutes := Some downtime\<rparr>"

definition resolution_log ::
  "Alert \<Rightarrow> string \<Rightarrow> string \<Rightarrow> string \<Rightarrow> string \<Rightarrow> int \<Rightarrow> time \<Rightarrow> MaintenanceLog" where
  "resolution_log a alert_id operator_id root_cause notes downtime now =
     \<lparr>l_id = ''LOG-'' @ alert_id, l_machine_id = a_machine_id a, l_alert_id = Some alert_id,
      l_created_at = a_created_at a, l_resolved_at = now, l_operator = operator_id,
      l_root_cause = root_cause, l_resolution_notes = notes, l_downtime_minutes = downtime,
      l_severity = a_severity a, l_alert_type = a_alert_type a, l_metadata = a_metadata a\<rparr>"

text \<open>
  A prediction that \<open>record_failure\<close> may match: same machine, still pending, made before
  \<open>now\<close> and at most \<open>window\<close> hours ago.
\<close>

definition elapsed_hours :: "time \<Rightarrow> PredictionRecord \<Rightarrow> real" where
  "elapsed_hours now p = (now - predicted_at p) / 3600"

definition eligible :: "string \<Rightarrow> time \<Rightarrow> real \<Rightarrow> PredictionRecord \<Rightarrow> bool" where
  "eligible machine_id now window p =
     (pr_machine_id p = machine_id \<and> outcome p = PENDING
      \<and> 0 < elapsed_hours now p \<and> elapsed_hours now p \<le> window)"

definition acc_ok ::
  "string \<Rightarrow> time \<Rightarrow> real \<Rightarrow> (string \<times> PredictionRecord \<times> real) option \<Rightarrow> bool" where
  "acc_ok m now w acc =
     (case acc of
        None \<Rightarrow> True
      | Some (k, p, d) \<Rightarrow> d = elapsed_hours now p \<and> eligible m now w p)"

definition mark_true_positive :: "time \<Rightarrow> PredictionRecord \<Rightarrow> PredictionRecord" where
  "mark_true_positive now p =
     p\<lparr>outcome := TRUE_POSITIVE, actual_failure_time := Some now,
       pr_lead_time_hours := Some (elapsed_hours now p)\<rparr>"

text \<open>
  The stabiliser's state for one machine: \<open>last_rul\<close> is the RUL of the newest history entry,
  and the cache is consistent when the cached RUL is not below that value rounded, which
  itself is not negative. The fresh predictor is consistent, and so is a machine after
  \<open>reset_machine\<close> or a bypassing call.
\<close>

definition last_rul :: "StabilizedRULPredictor \<Rightarrow> string \<Rightarrow> real option" where
  "last_rul st machine_id =
     (case prediction_history st machine_id of
        None \<Rightarrow> None
      | Some h \<Rightarrow> if h = [] then None else Some (fst (snd (last h))))"

definition cache_consistent :: "StabilizedRULPredictor \<Rightarrow> string \<Rightarrow> bool" where
  "cache_consistent st machine_id =
     (case stable_predictions st machine_id of
        None \<Rightarrow> True
      | Some (c, _) \<Rightarrow>
          (case last_rul st machine_id of
             None \<Rightarrow> False
           | Some s \<Rightarrow> 0 \<le> s \<and> py_round s 1 \<le> c))"

definition cached_value :: "StabilizedRULPredictor \<Rightarrow> string \<Rightarrow> time \<Rightarrow> (real \<times> real) option" where
  "cached_value st m now =
     (case last_prediction_time st m of
        Some t \<Rightarrow>
          if now - t < MIN_PREDICTION_INTERVAL_SECONDS then stable_predictions st m else None
      | None \<Rightarrow> None)"

text \<open>
  The RUL values a run returns for one machine, and the runs in which every call for that
  machine smooths (\<open>bypass_smoothing = False\<close>).
\<close>

definition returned_ruls :: "string \<Rightarrow> (string \<times> real \<times> real) list \<Rightarrow> real list" where
  "returned_ruls m outs =
     map (\<lambda>(mid, rul, health). rul) (filter (\<lambda>(mid, res). mid = m) outs)"

definition smoothing_calls ::
  "string \<Rightarrow> (string \<times> sensor_data \<times> bool \<times> time) list \<Rightarrow> bool" where
  "smoothing_calls m calls =
     list_all (\<lambda>(mid, sd, bypass, now). mid \<noteq> m \<or> \<not> bypass) calls"





section \<open>Concrete inputs\<close>

text \<open>A degraded sample: three of its five readings cross their degradation thresholds.\<close>

definition ex_sensors :: sensor_data where
  "ex_sensors = [(''vibration_x'', 2.6), (''vibration_y'', 2.55), (''temperature'', 92),
                 (''pressure'', 95), (''rpm'', 1420)]"

definition ex_sample :: "time \<Rightarrow> real \<Rightarrow> real \<Rightarrow> real \<Rightarrow> WindowSample" where
  "ex_sample t risk health rul =
     \<lparr>ws_timestamp = t, ws_risk_score = risk, ws_health_score = health, ws_rul_hours = rul,
      ws_sensors = ex_sensors\<rparr>"

text \<open>
  A \<open>critical_rul\<close> window holding three samples of rising risk, taken at 0, 10 and 20 s.
  The risks are binary fractions: their sum and mean are exact in double precision.
\<close>

definition ex_window3 :: EvaluationWindow where
  "ex_window3 =
     (EvaluationWindow_init ''M-1'' ''critical_rul'' (get_window_config ''critical_rul''))
       \<lparr>samples := [ex_sample 0 0.625 20 10, ex_sample 10 0.75 20 10, ex_sample 20 0.875 20 10]\<rparr>"

text \<open>
  A manager whose \<open>critical_rul\<close> condition for \<open>M-1\<close> has been pending since instant 0, over
  an empty store (\<open>ex_pending_am\<close>) and over a store that already holds an open alert of
  that type (\<open>ex_dup_am\<close>).
\<close>

definition ex_pending :: PendingAlert where
  "ex_pending =
     \<lparr>p_alert_type = ''critical_rul'', p_severity = ''critical'', first_triggered = 0,
      last_triggered = 20, trigger_count = 3\<rparr>"

definition ex_pending_am :: AlertManager where
  "ex_pending_am =
     (AlertManager_init empty_database)
       \<lparr>pending_alerts := [(''M-1'', ''critical_rul'') \<mapsto> ex_pending]\<rparr>"

definition ex_open_alert :: Alert where
  "ex_open_alert =
     \<lparr>a_id = ''ALERT-11111111'', a_machine_id = ''M-1'', a_alert_type = ''critical_rul'',
      a_severity = ''critical'', a_message = ''Critical: RUL only 10.0 hours remaining'',
      a_created_at = 5, a_state = ''ACKNOWLEDGED'', a_acknowledged_by = Some ''OP-001'',
      a_acknowledged_at = Some 8, a_resolved_by = None, a_resolved_at = None,
      a_resolution_notes = None, a_root_cause = None, a_downtime_minutes = None,
      a_metadata = JObj []\<rparr>"

definition ex_dup_am :: AlertManager where
  "ex_dup_am =
     (AlertManager_init \<lparr>alerts = [ex_open_alert], maintenance_logs = []\<rparr>)
       \<lparr>pending_alerts := [(''M-1'', ''critical_rul'') \<mapsto> ex_pending]\<rparr>"

text \<open>
  The lifecycle of one alert: created at 10 and acknowledged at 20 (\<open>ex_ack_am\<close>); then a
  maintenance log is posted at 30 under the identifier that resolving this alert would use
  (\<open>ex_logged_am\<close>).
\<close>

definition ex_ack_am :: AlertManager where
  "ex_ack_am =
     snd (acknowledge_alert
            (snd (create_alert_if_new (AlertManager_init empty_database) ''M-1''
                    ''critical_rul'' ''critical'' ''Critical: RUL only 10.0 hours remaining''
                    (JObj []) ''0A1B2C3D'' 10))
            ''ALERT-0A1B2C3D'' ''OP-001'' 20)"

definition ex_log_data :: log_data where
  "ex_log_data =
     \<lparr>ld_id = Some ''LOG-ALERT-0A1B2C3D'', ld_machine_id = Some ''M-1'', ld_alert_id = None,
      ld_resolved_at = None, ld_operator = None, ld_performed_by = None, ld_root_cause = None,
      ld_action = Some ''inspection'', ld_resolution_notes = None, ld_notes = None,
      ld_downtime_minutes = None, ld_duration_minutes = None, ld_severity = None,
      ld_alert_type = None, ld_metadata = None\<rparr>"

definition ex_logged_am :: AlertManager where
  "ex_logged_am =
     (case create_maintenance_log (db ex_ack_am) ex_log_data 30 ''19700101000030'' of
        Inr (_, d') \<Rightarrow> ex_ack_am\<lparr>db := d'\<rparr>
      | Inl _ \<Rightarrow> ex_ack_am)"

text \<open>Two predictions for \<open>M-1\<close>, recorded at instant 0 and ten hours later.\<close>

definition ex_tracker :: MetricsTracker where
  "ex_tracker =
     snd (record_prediction
            (snd (record_prediction MetricsTracker_init ''M-1'' 24 40 6 0.8 0))
            ''M-1'' 24 35 6 0.8 36000)"

text \<open>
  Three readings (fair, good, bad) and four smoothing calls for \<open>M-1\<close>: a first fair
  reading, a call 100 s later (inside the minimum interval), a bad reading and a good one.
  \<open>ex_st1\<close> and \<open>ex_st3\<close> are the predictor's states after the first and the third call.
\<close>

definition ex_fair :: sensor_data where
  "ex_fair = [(''vibration_x'', 1.2), (''vibration_y'', 1.1), (''temperature'', 85)]"

definition ex_good :: sensor_data where
  "ex_good = [(''vibration_x'', 0.5), (''vibration_y'', 0.5), (''temperature'', 70)]"

definition ex_bad :: sensor_data where
  "ex_bad = [(''vibration_x'', 1.8), (''vibration_y'', 1.7), (''temperature'', 95)]"

definition ex_calls :: "(string \<times> sensor_data \<times> bool \<times> time) list" where
  "ex_calls =
     [(''M-1'', ex_fair, False, 0), (''M-1'', ex_good, False, 100),
      (''M-1'', ex_bad, False, 600), (''M-1'', ex_good, False, 1200)]"

definition ex_st1 :: StabilizedRULPredictor where
  "ex_st1 =
     \<lparr>prediction_history = [''M-1'' \<mapsto> [(0, 93.8, 79.09)]],
      last_prediction_time = [''M-1'' \<mapsto> 0],
      stable_predictions = [''M-1'' \<mapsto> (93.8, 79.09)]\<rparr>"

definition ex_st3 :: StabilizedRULPredictor where
  "ex_st3 =
     \<lparr>prediction_history = [''M-1'' \<mapsto> [(0, 93.8, 79.09), (600, 87.99, 75.912)]],
      last_prediction_time = [''M-1'' \<mapsto> 600],
      stable_predictions = [''M-1'' \<mapsto> (88, 75.91)]\<rparr>"

text \<open>
  A run of seven samples of the machine \<open>M-1\<close>, taken at the instants 0, 1, 2, 3, 33, 62 and
  63, with exact arithmetic (\<open>ex_fp\<close>); \<open>ex_render\<close> renders the numbers this run formats
  as Python does. \<open>ex_state1\<close> to \<open>ex_state6\<close> are the manager after each of the first six
  samples. The first three samples are degraded to the warning level, the fourth and fifth
  to the critical level, the sixth has a low RUL and a health of 52, and the seventh is
  healthy.
\<close>

definition ex_fp :: fp_errors where
  "ex_fp = \<lparr>fp_risk = 0, fp_mean = (\<lambda>_. 0), fp_trend = (\<lambda>_. 0)\<rparr>"

definition ex_render :: "nat \<Rightarrow> real \<Rightarrow> string" where
  "ex_render d x =
     (if d = 1 \<and> x = 19 then ''19.0'' else if d = 1 \<and> x = 24 then ''24.0''
      else if d = 2 \<and> x = 10 then ''10.00'' else [])"

definition ex_s1 :: WindowSample where "ex_s1 = ex_sample 0 0.644 45 40"

definition ex_s2 :: WindowSample where "ex_s2 = ex_sample 1 0.651 44 39"

definition ex_s3 :: WindowSample where "ex_s3 = ex_sample 2 0.658 43 38"

definition ex_s4 :: WindowSample where "ex_s4 = ex_sample 3 0.783 25 20"

definition ex_s5 :: WindowSample where "ex_s5 = ex_sample 33 0.79 24 19"

definition ex_s6 :: WindowSample where "ex_s6 = ex_sample 62 0.735 52 24"

definition ex_window :: "string \<Rightarrow> WindowSample list \<Rightarrow> EvaluationWindow" where
  "ex_window alert_type ss =
     (EvaluationWindow_init ''M-1'' alert_type (get_window_config alert_type))\<lparr>samples := ss\<rparr>"

definition ex_windows ::
  "WindowSample list \<Rightarrow> WindowSample list \<Rightarrow> WindowSample list \<Rightarrow> windows" where
  "ex_windows warning critical anomaly =
     [(''M-1'', ''warning_rul'') \<mapsto> ex_window ''warning_rul'' warning,
      (''M-1'', ''critical_rul'') \<mapsto> ex_window ''critical_rul'' critical,
      (''M-1'', ''low_health_warning'') \<mapsto> ex_window ''low_health_warning'' warning,
      (''M-1'', ''low_health_critical'') \<mapsto> ex_window ''low_health_critical'' critical,
      (''M-1'', ''anomaly_detected'') \<mapsto> ex_window ''anomaly_detected'' anomaly]"

definition ex_pend :: "string \<Rightarrow> string \<Rightarrow> time \<Rightarrow> time \<Rightarrow> nat \<Rightarrow> PendingAlert" where
  "ex_pend alert_type severity t_first t_last n =
     \<lparr>p_alert_type = alert_type, p_severity = severity, first_triggered = t_first,
      last_triggered = t_last, trigger_count = n\<rparr>"

definition ex_alert :: "string \<Rightarrow> string \<Rightarrow> string \<Rightarrow> string \<Rightarrow> time \<Rightarrow> json \<Rightarrow> Alert" where
  "ex_alert i alert_type severity message created metadata =
     \<lparr>a_id = i, a_machine_id = ''M-1'', a_alert_type = alert_type, a_severity = severity,
      a_message = message, a_created_at = created, a_state = ''ACTIVE'',
      a_acknowledged_by = None, a_acknowledged_at = None, a_resolved_by = None,
      a_resolved_at = None, a_resolution_notes = None, a_root_cause = None,
      a_downtime_minutes = None, a_metadata = metadata\<rparr>"

definition ex_alerts5 :: "Alert list" where
  "ex_alerts5 =
     [ex_alert ''ALERT-000000E1'' ''critical_rul'' ''critical''
        ''Critical: RUL only 19.0 hours remaining'' 33
        (JObj [(''rul_hours'', JNum 19), (''sensors'', json_of_sensors ex_sensors),
               (''window_eval'',
                JObj [(''mean_risk'', JNum (1763 / 2500)),
                      (''trend'', JNum (8649600000000 / 39940000000001)),
                      (''pct_above'', JNum 1)])]),
      ex_alert ''ALERT-000000E2'' ''low_health_critical'' ''critical''
        ''Critical: Health score 24.0%'' 33
        (JObj [(''health_score'', JNum 24), (''sensors'', json_of_sensors ex_sensors),
               (''window_eval'',
                JObj [(''mean_risk'', JNum (1763 / 2500)),
                      (''trend'', JNum (8649600000000 / 39940000000001))])])]"

definition ex_alerts6 :: "Alert list" where
  "ex_alerts6 =
     ex_alerts5 @
     [ex_alert ''ALERT-000000F1'' ''warning_rul'' ''warning''
        ''Warning: RUL 24.0 hours, maintenance recommended'' 62
        (JObj [(''rul_hours'', JNum 24),
               (''window_eval'',
                JObj [(''mean_risk'', JNum (1483 / 2000)),
                      (''trend'', JNum (396000000000 / 13977142857143))])]),
      ex_alert ''ALERT-000000F3'' ''anomaly_detected'' ''critical''
        ''Anomaly detected (score: 10.00)'' 62
        (JObj [(''anomaly_score'', JNum 10), (''sensors'', json_of_sensors ex_sensors)])]"

definition ex_state1 :: AlertManager where
  "ex_state1 =
     \<lparr>db = \<lparr>alerts = [], maintenance_logs = []\<rparr>,
      window_manager =
        ex_windows [ex_s1]
          [ex_s1]
          [ex_s1],
      pending_alerts =
        Map.empty,
      recent_alerts = [''M-1'' \<mapsto> []]\<rparr>"

definition ex_state2 :: AlertManager where
  "ex_state2 =
     \<lparr>db = \<lparr>alerts = [], maintenance_logs = []\<rparr>,
      window_manager =
        ex_windows [ex_s1, ex_s2]
          [ex_s1, ex_s2]
          [ex_s1, ex_s2],
      pending_alerts =
        Map.empty,
      recent_alerts = [''M-1'' \<mapsto> []]\<rparr>"

definition ex_state3 :: AlertManager where
  "ex_state3 =
     \<lparr>db = \<lparr>alerts = [], maintenance_logs = []\<rparr>,
      window_manager =
        ex_windows [ex_s1, ex_s2, ex_s3]
          [ex_s1, ex_s2, ex_s3]
          [ex_s1, ex_s2, ex_s3],
      pending_alerts =
        [(''M-1'', ''warning_rul'') \<mapsto> ex_pend ''warning_rul'' ''warning'' 2 2 1,
         (''M-1'', ''low_health_warning'') \<mapsto> ex_pend ''low_health_warning'' ''warning'' 2 2 1,
         (''M-1'', ''anomaly_detected'') \<mapsto> ex_pend ''anomaly_detected'' ''critical'' 2 2 1],
      recent_alerts = [''M-1'' \<mapsto> []]\<rparr>"

definition ex_state4 :: AlertManager where
  "ex_state4 =
     \<lparr>db = \<lparr>alerts = [], maintenance_logs = []\<rparr>,
      window_manager =
        ex_windows [ex_s1, ex_s2, ex_s3, ex_s4]
          [ex_s1, ex_s2, ex_s3, ex_s4]
          [ex_s1, ex_s2, ex_s3, ex_s4],
      pending_alerts =
        [(''M-1'', ''warning_rul'') \<mapsto> ex_pend ''warning_rul'' ''warning'' 2 2 1,
         (''M-1'', ''critical_rul'') \<mapsto> ex_pend ''critical_rul'' ''critical'' 3 3 1,
         (''M-1'', ''low_health_warning'') \<mapsto> ex_pend ''low_health_warning'' ''warning'' 2 2 1,
         (''M-1'', ''low_health_critical'') \<mapsto> ex_pend ''low_health_critical'' ''critical'' 3 3 1,
         (''M-1'', ''anomaly_detected'') \<mapsto> ex_pend ''anomaly_detected'' ''critical'' 2 3 2],
      recent_alerts = [''M-1'' \<mapsto> []]\<rparr>"

definition ex_state5 :: AlertManager where
  "ex_state5 =
     \<lparr>db = \<lparr>alerts = ex_alerts5, maintenance_logs = []\<rparr>,
      window_manager =
        ex_windows [ex_s1, ex_s2, ex_s3, ex_s4, ex_s5]
          [ex_s1, ex_s2, ex_s3, ex_s4, ex_s5]
          [ex_s1, ex_s2, ex_s3, ex_s4, ex_s5],
      pending_alerts =
        [(''M-1'', ''warning_rul'') \<mapsto> ex_pend ''warning_rul'' ''warning'' 2 2 1,
         (''M-1'', ''low_health_warning'') \<mapsto> ex_pend ''low_health_warning'' ''warning'' 2 2 1,
         (''M-1'', ''anomaly_detected'') \<mapsto> ex_pend ''anomaly_detected'' ''critical'' 2 33 3],
      recent_alerts = [''M-1'' \<mapsto> [33, 33]]\<rparr>"

definition ex_state6 :: AlertManager where
  "ex_state6 =
     \<lparr>db = \<lparr>alerts = ex_alerts6, maintenance_logs = []\<rparr>,
      window_manager =
        ex_windows [ex_s3, ex_s4, ex_s5, ex_s6]
          [ex_s5, ex_s6]
          [ex_s1, ex_s2, ex_s3, ex_s4, ex_s5, ex_s6],
      pending_alerts =
        [(''M-1'', ''low_health_warning'') \<mapsto> ex_pend ''low_health_warning'' ''warning'' 2 2 1],
      recent_alerts = [''M-1'' \<mapsto> [33, 33, 62, 62]]\<rparr>"



section \<open>Rounding\<close>

lemma round_half_even_mono: "x \<le> y \<Longrightarrow> round_half_even x \<le> round_half_even y"
proof -
  assume xy: "x \<le> y"
  have lo: "\<lfloor>y\<rfloor> \<le> round_half_even y" by (simp add: round_half_even_def Let_def)
  have hi: "round_half_even x \<le> \<lfloor>x\<rfloor> + 1" by (simp add: round_half_even_def Let_def)
  have "\<lfloor>x\<rfloor> \<le> \<lfloor>y\<rfloor>" using xy by (rule floor_mono)
  then consider "\<lfloor>x\<rfloor> < \<lfloor>y\<rfloor>" | "\<lfloor>x\<rfloor> = \<lfloor>y\<rfloor>" by linarith
  then show ?thesis
  proof cases
    case 1 then show ?thesis using lo hi by linarith
  next
    case 2 then show ?thesis using xy by (auto simp: round_half_even_def Let_def)
  qed
qed

lemma round_half_even_of_int: "round_half_even (of_int k) = k"
  by (simp add: round_half_even_def Let_def)

lemma round_half_even_upper: "real_of_int (round_half_even y) \<le> y + 1 / 2"
  unfolding round_half_even_def Let_def by (auto; linarith)

lemma round_half_even_lower: "y - 1 / 2 \<le> real_of_int (round_half_even y)"
  unfolding round_half_even_def Let_def by (auto; linarith)

lemma py_round_mono: "x \<le> y \<Longrightarrow> py_round x nd \<le> py_round y nd"
proof -
  assume "x \<le> y"
  then have "x * 10 ^ nd \<le> y * 10 ^ nd" by (simp add: mult_right_mono)
  then have "round_half_even (x * 10 ^ nd) \<le> round_half_even (y * 10 ^ nd)"
    by (rule round_half_even_mono)
  then show ?thesis by (simp add: py_round_def divide_right_mono)
qed

lemma py_round_of_int: "py_round (of_int k) nd = of_int k"
proof -
  have "of_int k * (10::real) ^ nd = of_int (k * 10 ^ nd)" by simp
  then have "round_half_even (of_int k * 10 ^ nd) = k * 10 ^ nd"
    using round_half_even_of_int by metis
  then show ?thesis by (simp add: py_round_def)
qed

lemma py_round_error: "\<bar>py_round x nd - x\<bar> \<le> 1 / (2 * 10 ^ nd)"
proof -
  define p :: real where "p = 10 ^ nd"
  have p: "0 < p" by (simp add: p_def)
  define r where "r = real_of_int (round_half_even (x * p))"
  have "\<bar>r - x * p\<bar> \<le> 1 / 2"
    using round_half_even_upper [of "x * p"] round_half_even_lower [of "x * p"]
    unfolding r_def by linarith
  then have "\<bar>r - x * p\<bar> / p \<le> (1 / 2) / p"
    using p by (intro divide_right_mono) simp_all
  moreover have "r / p - x = (r - x * p) / p" using p by (simp add: field_simps)
  then have "\<bar>r - x * p\<bar> / p = \<bar>r / p - x\<bar>" using p by simp
  ultimately show ?thesis by (simp add: py_round_def p_def r_def)
qed

lemma py_round_unit: "0 \<le> c \<Longrightarrow> c \<le> 1 \<Longrightarrow> 0 \<le> py_round c nd \<and> py_round c nd \<le> 1"
  using py_round_mono [of 0 c nd] py_round_mono [of c 1 nd]
        py_round_of_int [of 0 nd] py_round_of_int [of 1 nd] by simp

lemma py_round_nonneg: "0 \<le> c \<Longrightarrow> 0 \<le> py_round c nd"
  using py_round_mono [of 0 c nd] py_round_of_int [of 0 nd] by simp

lemma py_round_idem: "py_round (py_round x nd) nd = py_round x nd"
proof -
  have "py_round x nd * 10 ^ nd = of_int (round_half_even (x * 10 ^ nd))"
    by (simp add: py_round_def)
  then show ?thesis
    by (simp add: py_round_def round_half_even_of_int del: of_int_power)
qed

lemma round_half_even_between:
  assumes "of_int k - 1 / 2 < y" and "y < of_int k + 1 / 2"
  shows "round_half_even y = k"
proof (cases "of_int k \<le> y")
  case True
  then have f: "\<lfloor>y\<rfloor> = k" using assms by linarith
  show ?thesis using assms True by (simp add: round_half_even_def f)
next
  case False
  then have f: "\<lfloor>y\<rfloor> = k - 1" using assms by linarith
  show ?thesis using assms False by (simp add: round_half_even_def f)
qed

section \<open>The risk score\<close>

lemma calculate_risk_score_as_spec:
  "calculate_risk_score err r h a = py_round (min 1 (max 0 (spec_weighted_risk r h a + err))) 3"
  unfolding calculate_risk_score_def spec_weighted_risk_def Let_def
  by (simp only: mult.commute)

lemma clamp_error:
  "\<bar>min 1 (max 0 (s + e)) - min 1 (max 0 s)\<bar> \<le> \<bar>e :: real\<bar>"
  by linarith

lemma abs_chain: "\<bar>p - c\<bar> \<le> x \<Longrightarrow> \<bar>c - m\<bar> \<le> y \<Longrightarrow> \<bar>p - m\<bar> \<le> x + (y :: real)"
  by linarith

lemma risk_100_50_0:
  assumes "\<bar>err\<bar> \<le> 1 / 10000"
  shows "calculate_risk_score err 100 50 0 = 0.328"
proof -
  have s: "spec_weighted_risk 100 50 0 = 59 / 180"
    by (simp add: spec_weighted_risk_def MAX_RUL_HOURS_def)
  have c: "min 1 (max 0 (59 / 180 + err)) = 59 / 180 + err" using assms by (simp add: abs_le_iff)
  have "round_half_even ((59 / 180 + err) * 10 ^ 3) = 328"
    using assms by (intro round_half_even_between) (simp_all add: abs_le_iff algebra_simps)
  then show ?thesis by (simp add: calculate_risk_score_as_spec s c py_round_def)
qed

text \<open>
  C9, as stated, fails: for inputs in their nominal ranges the score is not the weighted
  sum itself. At \<open>rul = 100\<close>, \<open>health = 50\<close>, \<open>anomaly = 0\<close> the weighted sum is
  \<open>0.32777...\<close>, while the code returns this value rounded to three decimals, \<open>0.328\<close>:
  so it does for exact arithmetic, and for every rounding error of the double sum up to
  \<open>0.0001\<close>, far more than double precision allows.
\<close>

theorem calculate_risk_score_not_weighted_sum:
  "(0::real) \<le> 100 \<and> 100 \<le> MAX_RUL_HOURS \<and> (0::real) \<le> 50 \<and> (50::real) \<le> 100
   \<and> calculate_risk_score 0 100 50 0 = 0.328
   \<and> \<not> (\<exists>err. \<bar>err\<bar> \<le> 1 / 10000
             \<and> calculate_risk_score err 100 50 0 = spec_weighted_risk 100 50 0)"
proof -
  have "spec_weighted_risk 100 50 0 \<noteq> 0.328"
    by (simp add: spec_weighted_risk_def MAX_RUL_HOURS_def)
  moreover have "calculate_risk_score 0 100 50 0 = 0.328" by (rule risk_100_50_0) simp
  ultimately show ?thesis by (auto simp: risk_100_50_0 MAX_RUL_HOURS_def)
qed

text \<open>
  C9, amended: \<open>calculate_risk_score\<close> is total with a value in \<open>[0, 1]\<close> that is a multiple of
  \<open>0.001\<close>. It is not the weighted sum itself but the double-precision value of
  \<open>0.5 (1 - rul/MAX_RUL_HOURS) + 0.35 (1 - health/100) + 0.15 min(1, anomaly/10)\<close>, the first
  two components clamped to \<open>[0, 1]\<close>, clamped to \<open>[0, 1]\<close> as a whole and then rounded to three
  decimals. Whatever the rounding error \<open>err\<close> of the double sum, the score differs from the
  clamped double sum by at most \<open>0.0005\<close>, and from the clamped exact weighted sum by at most
  \<open>0.0005 + |err|\<close>.
\<close>

theorem calculate_risk_score_bounded_rounded:
  "0 \<le> calculate_risk_score err r h a \<and> calculate_risk_score err r h a \<le> 1
   \<and> (\<exists>k. 0 \<le> k \<and> k \<le> 1000 \<and> calculate_risk_score err r h a = real_of_int k / 1000)
   \<and> calculate_risk_score err r h a
       = py_round (min 1 (max 0 (spec_weighted_risk r h a + err))) 3
   \<and> \<bar>calculate_risk_score err r h a - min 1 (max 0 (spec_weighted_risk r h a + err))\<bar>
       \<le> 1 / 2000
   \<and> \<bar>calculate_risk_score err r h a - min 1 (max 0 (spec_weighted_risk r h a))\<bar>
       \<le> 1 / 2000 + \<bar>err\<bar>"
proof -
  let ?s = "spec_weighted_risk r h a"
  let ?c = "min 1 (max 0 (?s + err))"
  let ?k = "round_half_even (?c * 10 ^ 3)"
  have c: "0 \<le> ?c" "?c \<le> 1" by simp_all
  have e: "calculate_risk_score err r h a = py_round ?c 3" by (rule calculate_risk_score_as_spec)
  have "\<bar>py_round ?c 3 - ?c\<bar> \<le> 1 / (2 * 10 ^ 3)" by (rule py_round_error)
  then have d: "\<bar>py_round ?c 3 - ?c\<bar> \<le> 1 / 2000" by simp
  have "\<bar>?c - min 1 (max 0 ?s)\<bar> \<le> \<bar>err\<bar>" by (rule clamp_error)
  with d have d2: "\<bar>py_round ?c 3 - min 1 (max 0 ?s)\<bar> \<le> 1 / 2000 + \<bar>err\<bar>"
    by (rule abs_chain)
  have "round_half_even (0 * 10 ^ 3) \<le> ?k" by (intro round_half_even_mono) (simp add: c)
  then have k0: "0 \<le> ?k" using round_half_even_of_int [of 0] by simp
  have "?k \<le> round_half_even (1 * 10 ^ 3)"
    by (intro round_half_even_mono mult_right_mono) (simp_all add: c)
  then have k1: "?k \<le> 1000" using round_half_even_of_int [of 1000] by simp
  have "py_round ?c 3 = real_of_int ?k / 1000" by (simp add: py_round_def)
  with k0 k1 have m: "\<exists>k. 0 \<le> k \<and> k \<le> 1000 \<and> py_round ?c 3 = real_of_int k / 1000"
    by blast
  from py_round_unit [OF c] have u: "0 \<le> py_round ?c 3" "py_round ?c 3 \<le> 1" by simp_all
  show ?thesis unfolding e by (intro conjI u m refl d d2)
qed

section \<open>The evaluation window\<close>

lemma prune_keeps_config [simp]:
  "risk_threshold (prune_old_samples w now) = risk_threshold w"
  "required_pct_above (prune_old_samples w now) = required_pct_above w"
  "require_worsening_trend (prune_old_samples w now) = require_worsening_trend w"
  "duration_seconds (prune_old_samples w now) = duration_seconds w"
  by (simp_all add: prune_old_samples_def Let_def)

lemma calculate_trend_flat:
  assumes "2 \<le> length ts" and "1 \<le> last ts - hd ts"
  shows "calculate_trend err_trend ts (replicate (length ts) c) = err_trend"
proof -
  have m: "sum_list (map2 (*) xs (replicate (length xs) c)) = c * sum_list xs" for xs :: "real list"
    by (induction xs) (simp_all add: algebra_simps)
  have r: "sum_list (replicate k c) = real k * c" for k
    by (induction k) (simp_all add: algebra_simps)
  let ?x = "map (\<lambda>t. t - hd ts) ts"
  have ne: "ts \<noteq> []" using assms(1) by auto
  have span: "\<not> last ?x - hd ?x < 1" using assms(2) ne by (simp add: last_map hd_map)
  have "sum_list (map2 (*) ?x (replicate (length ts) c)) = c * sum_list ?x"
    using m [of ?x] by simp
  then show ?thesis
    using assms(1) span unfolding calculate_trend_def Let_def by (simp add: r)
qed

text \<open>
  C5: with \<open>w\<close> the window after pruning to its duration and \<open>e\<close> the evaluation returned,
  fewer than 3 remaining samples give \<open>may_proceed = False\<close>. With at least 3, the mean risk is
  the arithmetic mean of the remaining risks as \<open>np.mean\<close> computes it; the trend is 0 when
  the remaining samples span less than one second and otherwise 60 times the regression
  slope \<open>(n \<Sigma>xy - \<Sigma>x \<Sigma>y) / (n \<Sigma>x\<^sup>2 - (\<Sigma>x)\<^sup>2 + 10\<^sup>-\<^sup>1\<^sup>0)\<close> of the risks \<open>y\<close> over the seconds \<open>x\<close>
  since the first remaining sample, as computed in double precision; \<open>pct_above\<close> is the
  fraction of remaining samples whose risk is at least \<open>risk_threshold\<close>; and \<open>may_proceed\<close>
  holds exactly when the mean risk is at least \<open>risk_threshold\<close>, the trend is positive or
  not required, and \<open>pct_above\<close> is at least \<open>required_pct_above\<close>. The statement holds
  whatever the rounding errors \<open>err_mean\<close> and \<open>err_trend\<close> of the two computed doubles are.
\<close>

theorem evaluate_decision:
  assumes "w = prune_old_samples w0 now" and "e = fst (evaluate w0 err_mean err_trend now)"
    and "ys = map ws_risk_score (samples w)"
    and "xs = map (\<lambda>s. ws_timestamp s - ws_timestamp (hd (samples w))) (samples w)"
    and "n = real (length (samples w))"
  shows "(length (samples w) < 3 \<longrightarrow> \<not> may_proceed e)
    \<and> (3 \<le> length (samples w) \<longrightarrow>
         mean_risk e = sum_list ys / n + err_mean
       \<and> risk_trend e
           = (if ws_timestamp (last (samples w)) - ws_timestamp (hd (samples w)) < 1 then 0
              else (n * sum_list (map2 (*) xs ys) - sum_list xs * sum_list ys)
                   / (n * sum_list (map (\<lambda>v. v ^ 2) xs) - (sum_list xs) ^ 2 + 1 / 10 ^ 10) * 60
                   + err_trend)
       \<and> pct_above_threshold e
           = real (length (filter (\<lambda>s. risk_threshold w0 \<le> ws_risk_score s) (samples w))) / n
       \<and> may_proceed e
           = (risk_threshold w0 \<le> mean_risk e
              \<and> (\<not> require_worsening_trend w0 \<or> 0 < risk_trend e)
              \<and> required_pct_above w0 \<le> pct_above_threshold e))"
proof (cases "length (samples w) < 3")
  case True
  then show ?thesis using assms(1,2) by (simp add: evaluate_def Let_def)
next
  case False
  then have ne: "samples w \<noteq> []" by auto
  have x: "map (\<lambda>t. t - hd (map ws_timestamp (samples w))) (map ws_timestamp (samples w)) = xs"
    using ne assms(4) by (simp add: hd_map comp_def)
  have span: "last xs - hd xs = ws_timestamp (last (samples w)) - ws_timestamp (hd (samples w))"
    using ne assms(4) by (simp add: hd_map last_map)
  have t: "calculate_trend err_trend (map ws_timestamp (samples w)) ys
      = (if ws_timestamp (last (samples w)) - ws_timestamp (hd (samples w)) < 1 then 0
         else (n * sum_list (map2 (*) xs ys) - sum_list xs * sum_list ys)
              / (n * sum_list (map (\<lambda>v. v ^ 2) xs) - (sum_list xs) ^ 2 + 1 / 10 ^ 10) * 60
              + err_trend)"
    using False assms(3,4,5) unfolding calculate_trend_def Let_def x span by simp
  have e: "e = fst (evaluate w0 err_mean err_trend now)" by (rule assms(2))
  have cfg: "risk_threshold w = risk_threshold w0" "required_pct_above w = required_pct_above w0"
    "require_worsening_trend w = require_worsening_trend w0"
    by (simp_all add: assms(1))
  show ?thesis
    using False unfolding e evaluate_def Let_def assms(1) [symmetric] assms(3) [symmetric] t
    by (simp add: comp_def assms(3,5) cfg)
qed

lemma ex_window3_at_30:
  "samples (prune_old_samples ex_window3 30) = samples ex_window3"
  "length (samples ex_window3) = 3"
  "risk_threshold ex_window3 = 0.6" "required_pct_above ex_window3 = 0.65"
  "require_worsening_trend ex_window3"
  by (simp_all add: ex_window3_def ex_sample_def prune_old_samples_def EvaluationWindow_init_def
      get_window_config_def EVALUATION_WINDOWS_def Let_def)

lemma ex_window3_samples:
  "samples ex_window3
     = [ex_sample 0 0.625 20 10, ex_sample 10 0.75 20 10, ex_sample 20 0.875 20 10]"
  by (simp add: ex_window3_def)

lemma ex_window3_at_60:
  "length (samples (prune_old_samples ex_window3 60)) = 1"
  by (simp add: ex_window3_def ex_sample_def prune_old_samples_def EvaluationWindow_init_def
      get_window_config_def EVALUATION_WINDOWS_def Let_def)

theorem evaluate_decision_witness:
  "length (samples (prune_old_samples ex_window3 30)) = 3
   \<and> mean_risk (fst (evaluate ex_window3 0 0 30)) = 3 / 4
   \<and> 0 < risk_trend (fst (evaluate ex_window3 0 0 30))
   \<and> pct_above_threshold (fst (evaluate ex_window3 0 0 30)) = 1
   \<and> may_proceed (fst (evaluate ex_window3 0 0 30))
   \<and> length (samples (prune_old_samples ex_window3 60)) = 1
   \<and> \<not> may_proceed (fst (evaluate ex_window3 0 0 60))"
proof -
  have a: "3 \<le> length (samples (prune_old_samples ex_window3 30))"
    by (simp add: ex_window3_at_30)
  have b: "length (samples (prune_old_samples ex_window3 60)) < 3"
    by (simp add: ex_window3_at_60)
  from evaluate_decision [OF refl refl refl refl refl, of ex_window3 30 0 0] a
  have m: "mean_risk (fst (evaluate ex_window3 0 0 30)) = 3 / 4"
    and t: "0 < risk_trend (fst (evaluate ex_window3 0 0 30))"
    and p: "pct_above_threshold (fst (evaluate ex_window3 0 0 30)) = 1"
    and d: "may_proceed (fst (evaluate ex_window3 0 0 30))
           = (risk_threshold ex_window3 \<le> mean_risk (fst (evaluate ex_window3 0 0 30))
              \<and> (\<not> require_worsening_trend ex_window3
                   \<or> 0 < risk_trend (fst (evaluate ex_window3 0 0 30)))
              \<and> required_pct_above ex_window3
                   \<le> pct_above_threshold (fst (evaluate ex_window3 0 0 30)))"
    by (simp_all add: ex_window3_at_30 ex_window3_samples ex_sample_def)
  have yes: "may_proceed (fst (evaluate ex_window3 0 0 30))"
    unfolding d m p using t by (simp add: ex_window3_at_30)
  from evaluate_decision [OF refl refl refl refl refl, of ex_window3 60 0 0] b
  have no: "\<not> may_proceed (fst (evaluate ex_window3 0 0 60))" by simp
  show ?thesis using yes no m t p by (simp add: ex_window3_at_30 ex_window3_at_60)
qed

section \<open>Persistence\<close>

lemma create_alert_if_new_duplicate:
  "check_duplicate_alert (db am) m t \<Longrightarrow>
     create_alert_if_new am m t sev msg meta u now = (Inr None, am)"
  by (simp add: create_alert_if_new_def)

lemma create_alert_if_new_pending:
  "pending_alerts (snd (create_alert_if_new am m t sev msg meta u now)) = pending_alerts am"
  by (simp add: create_alert_if_new_def Let_def split: sum.splits prod.splits)

lemma persistence_table:
  "or_else (PERSISTENCE_WINDOWS ''warning_rul'') 30 = 60"
  "or_else (PERSISTENCE_WINDOWS ''low_health_warning'') 30 = 60"
  "or_else (PERSISTENCE_WINDOWS ''critical_rul'') 30 = 30"
  "or_else (PERSISTENCE_WINDOWS ''low_health_critical'') 30 = 30"
  "or_else (PERSISTENCE_WINDOWS ''anomaly_detected'') 30 = 45"
  by (simp_all add: PERSISTENCE_WINDOWS_def or_else_def)

text \<open>
  C2: when \<open>_process_alert_with_persistence\<close> returns an alert id, or changes the store at
  all, the pending entry \<open>p\<close> for its machine and alert type existed, the call set its
  \<open>last_triggered\<close> to \<open>now\<close>, and \<open>last_triggered - first_triggered\<close> is at least the
  persistence window of the alert type (\<open>PERSISTENCE_WINDOWS\<close>, 30 for a type not listed).
\<close>

theorem alert_only_after_persistence:
  assumes "r = process_alert_with_persistence am m t sev msg meta u now"
    and "fst r = Inr (Some aid) \<or> db (snd r) \<noteq> db am"
  shows "\<exists>p. pending_alerts am (m, t) = Some p
     \<and> last_triggered (pending_update p now) = now
     \<and> first_triggered (pending_update p now) = first_triggered p
     \<and> or_else (PERSISTENCE_WINDOWS t) 30
         \<le> last_triggered (pending_update p now) - first_triggered (pending_update p now)"
  using assms
  by (auto simp: process_alert_with_persistence_def Let_def is_persistent_def pending_update_def
      split: option.splits if_splits)

lemma ex_pending_am_run:
  "fst (process_alert_with_persistence ex_pending_am ''M-1'' ''critical_rul'' ''critical''
          ''Critical: RUL only 10.0 hours remaining'' (JObj []) ''0A1B2C3D'' 31)
     = Inr (Some ''ALERT-0A1B2C3D'')"
  by (simp add: process_alert_with_persistence_def ex_pending_am_def ex_pending_def
      AlertManager_init_def empty_database_def pending_update_def is_persistent_def
      persistence_table create_alert_if_new_def check_duplicate_alert_def create_alert_def
      Let_def)

theorem alert_only_after_persistence_witness:
  "fst (process_alert_with_persistence ex_pending_am ''M-1'' ''critical_rul'' ''critical''
          ''Critical: RUL only 10.0 hours remaining'' (JObj []) ''0A1B2C3D'' 31)
     = Inr (Some ''ALERT-0A1B2C3D'')
   \<and> (\<exists>p. pending_alerts ex_pending_am (''M-1'', ''critical_rul'') = Some p
          \<and> first_triggered p = 0
          \<and> 30 \<le> last_triggered (pending_update p 31) - first_triggered (pending_update p 31))"
proof -
  from alert_only_after_persistence [OF refl disjI1, OF ex_pending_am_run]
  obtain p where p: "pending_alerts ex_pending_am (''M-1'', ''critical_rul'') = Some p"
    and d: "or_else (PERSISTENCE_WINDOWS ''critical_rul'') 30
         \<le> last_triggered (pending_update p 31) - first_triggered (pending_update p 31)"
    by blast
  from p have "p = ex_pending" by (simp add: ex_pending_am_def)
  then have "first_triggered p = 0" by (simp add: ex_pending_def)
  with p d ex_pending_am_run show ?thesis by (auto simp: persistence_table)
qed

text \<open>
  C10: when the pending entry for \<open>(m, t)\<close> exists and the persistence window is met, the
  call removes the entry whatever the creation does; if the store already holds an open
  alert for \<open>(m, t)\<close> the call returns \<open>None\<close> and leaves the store as it was; and the next
  call for \<open>(m, t)\<close> returns \<open>None\<close> and starts a fresh entry whose \<open>first_triggered\<close> is the
  instant of that call.
\<close>

theorem persistence_met_removes_pending:
  assumes "pending_alerts am (m, t) = Some p"
    and "or_else (PERSISTENCE_WINDOWS t) 30 \<le> now - first_triggered p"
    and "am' = snd (process_alert_with_persistence am m t sev msg meta u now)"
  shows "pending_alerts am' (m, t) = None
    \<and> (check_duplicate_alert (db am) m t \<longrightarrow>
         fst (process_alert_with_persistence am m t sev msg meta u now) = Inr None
         \<and> db am' = db am)
    \<and> fst (process_alert_with_persistence am' m t sev2 msg2 meta2 u2 now2) = Inr None
    \<and> pending_alerts (snd (process_alert_with_persistence am' m t sev2 msg2 meta2 u2 now2)) (m, t)
        = Some (PendingAlert_init t sev2 now2)"
proof -
  let ?am1 = "am\<lparr>pending_alerts :=
      ((pending_alerts am)((m, t) \<mapsto> pending_update p now))((m, t) := None)\<rparr>"
  have run: "process_alert_with_persistence am m t sev msg meta u now
      = create_alert_if_new ?am1 m t sev msg meta u now"
    using assms(1,2)
    by (simp add: process_alert_with_persistence_def Let_def is_persistent_def pending_update_def)
  have gone: "pending_alerts am' (m, t) = None"
    using assms(3) by (simp add: run create_alert_if_new_pending)
  have dup: "check_duplicate_alert (db am) m t \<longrightarrow>
         fst (process_alert_with_persistence am m t sev msg meta u now) = Inr None
         \<and> db am' = db am"
    using assms(3) by (simp add: run create_alert_if_new_duplicate)
  have again: "process_alert_with_persistence am' m t sev2 msg2 meta2 u2 now2
      = (Inr None,
         am'\<lparr>pending_alerts := (pending_alerts am')((m, t) \<mapsto> PendingAlert_init t sev2 now2)\<rparr>)"
    using gone by (simp add: process_alert_with_persistence_def Let_def)
  show ?thesis using gone dup by (simp add: again)
qed

lemma ex_dup_am_facts:
  "pending_alerts ex_dup_am (''M-1'', ''critical_rul'') = Some ex_pending"
  "or_else (PERSISTENCE_WINDOWS ''critical_rul'') 30 \<le> 31 - first_triggered ex_pending"
  "check_duplicate_alert (db ex_dup_am) ''M-1'' ''critical_rul''"
  by (simp_all add: ex_dup_am_def ex_pending_def ex_open_alert_def AlertManager_init_def
      persistence_table check_duplicate_alert_def is_open_state_def)

theorem persistence_met_removes_pending_witness:
  "pending_alerts ex_dup_am (''M-1'', ''critical_rul'') = Some ex_pending
   \<and> fst (process_alert_with_persistence ex_dup_am ''M-1'' ''critical_rul'' ''critical''
            ''Critical: RUL only 9.0 hours remaining'' (JObj []) ''0A1B2C3D'' 31) = Inr None
   \<and> db (snd (process_alert_with_persistence ex_dup_am ''M-1'' ''critical_rul'' ''critical''
            ''Critical: RUL only 9.0 hours remaining'' (JObj []) ''0A1B2C3D'' 31)) = db ex_dup_am
   \<and> pending_alerts
        (snd (process_alert_with_persistence ex_dup_am ''M-1'' ''critical_rul'' ''critical''
            ''Critical: RUL only 9.0 hours remaining'' (JObj []) ''0A1B2C3D'' 31))
        (''M-1'', ''critical_rul'') = None
   \<and> first_triggered (PendingAlert_init ''critical_rul'' ''critical'' 40) = 40"
  using persistence_met_removes_pending [OF ex_dup_am_facts(1) ex_dup_am_facts(2) refl,
      of "''critical''" "''Critical: RUL only 9.0 hours remaining''" "JObj []" "''0A1B2C3D''"
         "''critical''" "''Critical: RUL only 9.0 hours remaining''" "JObj []" "''4E5F6A7B''" 40]
    ex_dup_am_facts
  by (simp add: PendingAlert_init_def)

section \<open>At most one open alert\<close>

lemma check_duplicate_open_rows:
  "check_duplicate_alert d m t = (open_rows d m t \<noteq> [])"
  by (simp add: check_duplicate_alert_def open_rows_def)

lemma one_open_create:
  assumes "one_open (db am)"
  shows "one_open (db (snd (create_alert_if_new am m t sev msg meta u now)))"
proof (cases "check_duplicate_alert (db am) m t")
  case True
  then show ?thesis using assms by (simp add: create_alert_if_new_duplicate)
next
  case False
  then have e: "open_rows (db am) m t = []" by (simp add: check_duplicate_open_rows)
  show ?thesis
  proof (cases "create_alert (db am) \<lparr>ad_id = ''ALERT-'' @ u, ad_machine_id = m,
                          ad_alert_type = t, ad_severity = sev,
                          ad_message = msg, ad_created_at = now, ad_metadata = meta\<rparr>")
    case (Inl e)
    then show ?thesis using assms False by (simp add: create_alert_if_new_def Let_def)
  next
    case (Inr p)
    then obtain i d' where p: "p = (i, d')" by (cases p)
    have "\<And>m' t'. length (open_rows d' m' t') \<le> 1"
    proof -
      fix m' t'
      show "length (open_rows d' m' t') \<le> 1"
      proof (cases "m' = m \<and> t' = t")
        case True
        then show ?thesis using Inr p e
          by (auto simp: create_alert_def open_rows_def is_open_state_def split: if_splits)
      next
        case False
        have "length (open_rows (db am) m' t') \<le> 1" using assms by (simp add: one_open_def)
        then show ?thesis using Inr p False
          by (auto simp: create_alert_def open_rows_def split: if_splits)
      qed
    qed
    then show ?thesis using False Inr p
      by (simp add: create_alert_if_new_def Let_def one_open_def)
  qed
qed

lemma one_open_process:
  assumes "one_open (db am)"
  shows "one_open (db (snd (process_alert_with_persistence am m t sev msg meta u now)))"
proof -
  have "\<And>am1. db am1 = db am \<Longrightarrow>
      one_open (db (snd (create_alert_if_new am1 m t sev msg meta u now)))"
    using assms one_open_create by metis
  then show ?thesis using assms
    by (simp add: process_alert_with_persistence_def Let_def split: option.splits)
qed

lemma db_collect: "db (snd (collect r c)) = db (snd r)"
  by (simp add: collect_def split: prod.splits sum.splits option.splits)

lemma one_open_rul_section:
  assumes "one_open (db am)"
  shows "one_open (db (snd (rul_section am m sd rul fp rd u now c)))"
proof -
  have p: "\<And>am1 t sev msg meta. db am1 = db am \<Longrightarrow>
     one_open (db (snd (process_alert_with_persistence am1 m t sev msg meta u now)))"
    using assms one_open_process by metis
  show ?thesis using assms
    by (simp add: rul_section_def Let_def db_collect p clear_pending_alert_def
        split: prod.splits)
qed

lemma one_open_health_section:
  assumes "one_open (db am)"
  shows "one_open (db (snd (health_section am m sd h fp rd u now c)))"
proof -
  have p: "\<And>am1 t sev msg meta. db am1 = db am \<Longrightarrow>
     one_open (db (snd (process_alert_with_persistence am1 m t sev msg meta u now)))"
    using assms one_open_process by metis
  show ?thesis using assms
    by (simp add: health_section_def Let_def db_collect p clear_pending_alert_def
        split: prod.splits)
qed

lemma one_open_anomaly_section:
  assumes "one_open (db am)"
  shows "one_open (db (snd (anomaly_section am m sd ia sc fp rd u now c)))"
proof -
  have p: "\<And>am1 t sev msg meta. db am1 = db am \<Longrightarrow>
     one_open (db (snd (process_alert_with_persistence am1 m t sev msg meta u now)))"
    using assms one_open_process by metis
  show ?thesis using assms
    by (simp add: anomaly_section_def Let_def db_collect p clear_pending_alert_def
        split: prod.splits)
qed

lemma db_prelude:
  "db (snd (check_rate_limit
             (cleanup_old_rate_limit_data (cleanup_old_pending_alerts am now) now) m now))
     = db am"
  by (simp add: check_rate_limit_def cleanup_old_rate_limit_data_def
      cleanup_old_pending_alerts_def Let_def)

lemma db_feed_windows: "db (feed_windows am m sd risk h rul now) = db am"
  by (simp add: feed_windows_def)

lemma check_and_create_alerts_unfold:
  "check_and_create_alerts am m sd rul h ia sc fp rd (u1, u2, u3) now =
     (let r3 = check_rate_limit
                 (cleanup_old_rate_limit_data (cleanup_old_pending_alerts am now) now) m now
      in if \<not> fst r3 then (Inr [], snd r3)
         else
           let r5 = rul_section
                      (feed_windows (snd r3) m sd (calculate_risk_score (fp_risk fp) rul h sc)
                         h rul now)
                      m sd rul fp rd u1 now []
           in case fst r5 of
                Inl e \<Rightarrow> (Inl e, snd r5)
              | Inr c1 \<Rightarrow>
                  (let r6 = health_section (snd r5) m sd h fp rd u2 now c1
                   in case fst r6 of
                        Inl e \<Rightarrow> (Inl e, snd r6)
                      | Inr c2 \<Rightarrow> anomaly_section (snd r6) m sd ia sc fp rd u3 now c2))"
  by (simp add: check_and_create_alerts_def Let_def split: prod.splits sum.splits)

lemma one_open_check:
  assumes "one_open (db am)"
  shows "one_open (db (snd (check_and_create_alerts am m sd rul h ia sc fp rd us now)))"
proof -
  obtain u1 u2 u3 where us: "us = (u1, u2, u3)" by (cases us) auto
  let ?am3 = "snd (check_rate_limit
      (cleanup_old_rate_limit_data (cleanup_old_pending_alerts am now) now) m now)"
  let ?am4 = "feed_windows ?am3 m sd (calculate_risk_score (fp_risk fp) rul h sc) h rul now"
  have a3: "one_open (db ?am3)" using assms by (simp add: db_prelude)
  have a4: "one_open (db ?am4)" using a3 by (simp add: db_feed_windows)
  let ?r5 = "rul_section ?am4 m sd rul fp rd u1 now []"
  have a5: "one_open (db (snd ?r5))" using a4 by (rule one_open_rul_section)
  have a6: "\<And>c. one_open (db (snd (health_section (snd ?r5) m sd h fp rd u2 now c)))"
    using a5 by (rule one_open_health_section)
  have a7: "\<And>c c'. one_open (db (snd (anomaly_section
      (snd (health_section (snd ?r5) m sd h fp rd u2 now c)) m sd ia sc fp rd u3 now c')))"
    using a6 by (rule one_open_anomaly_section)
  show ?thesis
    unfolding us check_and_create_alerts_unfold Let_def
    using a3 a5 a6 a7 by (simp split: sum.splits)
qed

lemma filter_map_le:
  assumes "\<And>x. P (f x) \<Longrightarrow> P x"
  shows "length (filter P (map f xs)) \<le> length (filter P xs)"
  using assms by (induction xs) (auto simp: le_SucI)

lemma open_rows_map_le:
  assumes "\<And>a. a_machine_id (f a) = a_machine_id a"
    and "\<And>a. a_alert_type (f a) = a_alert_type a"
    and "\<And>a. is_open_state (a_state (f a)) \<Longrightarrow> is_open_state (a_state a)"
  shows "length (open_rows (d\<lparr>alerts := map f (alerts d)\<rparr>) m t) \<le> length (open_rows d m t)"
proof -
  let ?P = "\<lambda>a. a_machine_id a = m \<and> a_alert_type a = t \<and> is_open_state (a_state a)"
  have "length (filter ?P (map f (alerts d))) \<le> length (filter ?P (alerts d))"
    by (rule filter_map_le) (use assms in auto)
  then show ?thesis by (simp add: open_rows_def del: filter_map)
qed

lemma one_open_map:
  assumes "one_open d"
    and "\<And>a. a_machine_id (f a) = a_machine_id a"
    and "\<And>a. a_alert_type (f a) = a_alert_type a"
    and "\<And>a. is_open_state (a_state (f a)) \<Longrightarrow> is_open_state (a_state a)"
  shows "one_open (d\<lparr>alerts := map f (alerts d)\<rparr>)"
  unfolding one_open_def
proof (intro allI)
  fix m t
  have "length (open_rows (d\<lparr>alerts := map f (alerts d)\<rparr>) m t) \<le> length (open_rows d m t)"
    using assms(2-4) by (rule open_rows_map_le)
  also have "\<dots> \<le> 1" using assms(1) by (simp add: one_open_def)
  finally show "length (open_rows (d\<lparr>alerts := map f (alerts d)\<rparr>) m t) \<le> 1" .
qed

lemma one_open_logs [simp]: "one_open (d\<lparr>maintenance_logs := ls\<rparr>) = one_open d"
  by (simp add: one_open_def open_rows_def)

lemma one_open_db_acknowledge:
  "one_open d \<Longrightarrow> one_open (snd (db_acknowledge_alert d i op now))"
  unfolding db_acknowledge_alert_def Let_def snd_conv
  by (rule one_open_map) (auto simp: is_open_state_def split: if_splits)

lemma one_open_db_resolve:
  assumes "one_open d" and "db_resolve_alert d i op rc rn dt now = Inr (b, d')"
  shows "one_open d'"
proof -
  let ?f = "\<lambda>a. if a_id a = i \<and> (a_state a = ''ACKNOWLEDGED'' \<or> a_state a = ''IN_PROGRESS'')
                 then a\<lparr>a_state := ''RESOLVED'', a_resolved_by := Some op,
                        a_resolved_at := Some now, a_resolution_notes := Some rn,
                        a_root_cause := Some rc, a_downtime_minutes := Some dt\<rparr>
                 else a"
  have m: "one_open (d\<lparr>alerts := map ?f (alerts d)\<rparr>)"
    using assms(1) by (rule one_open_map) (auto simp: is_open_state_def split: if_splits)
  from assms(2)
  have "d' = d \<or> (\<exists>ls. d' = d\<lparr>alerts := map ?f (alerts d), maintenance_logs := ls\<rparr>)"
    by (auto simp: db_resolve_alert_def Let_def split: option.splits if_splits)
  then show ?thesis using assms(1) m by auto
qed

lemma one_open_cleanup: "one_open d \<Longrightarrow> one_open (snd (cleanup_old_data d now))"
proof -
  assume a: "one_open d"
  let ?old = "\<lambda>a. a_state a = ''RESOLVED''
      \<and> (case a_resolved_at a of
           Some t \<Rightarrow> t < now - ALERT_RETENTION_DAYS * 86400 | None \<Rightarrow> False)"
  have "one_open (d\<lparr>alerts := map (\<lambda>a. if ?old a then a\<lparr>a_state := ''LOGGED''\<rparr> else a)
                                   (alerts d)\<rparr>)"
    using a by (rule one_open_map) (auto simp: is_open_state_def split: if_splits)
  then show ?thesis by (simp add: cleanup_old_data_def Let_def)
qed

lemma one_open_acknowledge:
  "one_open (db am) \<Longrightarrow> one_open (db (snd (acknowledge_alert am i op now)))"
  using one_open_db_acknowledge [of "db am" i op now]
  by (auto simp: acknowledge_alert_def Let_def split: option.splits prod.splits)

lemma one_open_resolve:
  "one_open (db am) \<Longrightarrow> one_open (db (snd (resolve_alert am i op rc rn dt now)))"
  using one_open_db_resolve [of "db am" i op rc rn dt now]
  by (auto simp: resolve_alert_def Let_def split: option.splits prod.splits sum.splits)

lemma reachable_one_open: "reachable am \<Longrightarrow> one_open (db am)"
proof (induction rule: reachable.induct)
  case start
  then show ?case
    by (simp add: AlertManager_init_def empty_database_def one_open_def open_rows_def)
next
  case (sample am machine_id sd rul health is_anomaly anomaly_score uuids now)
  then show ?case by (simp add: one_open_check)
next
  case (acknowledge am alert_id operator_id now)
  then show ?case by (simp add: one_open_acknowledge)
next
  case (resolve am alert_id operator_id root_cause resolution_notes downtime_minutes now)
  then show ?case by (simp add: one_open_resolve)
next
  case (log_created am ld now stamp log_id d')
  then show ?case by (auto simp: create_maintenance_log_def Let_def split: if_splits)
next
  case (log_deleted am log_id)
  then show ?case by (simp add: delete_maintenance_log_def)
next
  case (cleaned am now)
  then show ?case by (simp add: one_open_cleanup)
qed

text \<open>
  C1: in every state the application can reach, each machine and alert type has at most one
  row of \<open>alerts\<close> whose state is \<open>ACTIVE\<close>, \<open>ACKNOWLEDGED\<close> or \<open>IN_PROGRESS\<close>; and whenever
  the store of a manager holds such a row, \<open>_create_alert_if_new\<close> returns \<open>None\<close> and
  changes nothing.
\<close>

theorem at_most_one_open_alert:
  "(reachable am \<longrightarrow> length (open_rows (db am) machine_id alert_type) \<le> 1)
   \<and> (open_rows (db am') machine_id alert_type \<noteq> [] \<longrightarrow>
        create_alert_if_new am' machine_id alert_type severity message metadata uuid8 now
          = (Inr None, am'))"
  using reachable_one_open [of am]
  by (simp add: one_open_def create_alert_if_new_duplicate check_duplicate_open_rows)

section \<open>Resolving an alert\<close>

lemma find_hit:
  "find (\<lambda>a. a_id a = i) xs = Some a \<Longrightarrow> P a
     \<Longrightarrow> filter (\<lambda>a. a_id a = i \<and> P a) xs \<noteq> []"
  by (induction xs) (auto split: if_splits)

lemma find_map_hit:
  assumes "find (\<lambda>a. a_id a = i) xs = Some a" and "\<And>x. a_id (f x) = a_id x"
  shows "find (\<lambda>a. a_id a = i) (map f xs) = Some (f a)"
  using assms by (induction xs) (auto split: if_splits)

lemma find_id: "find (\<lambda>a. a_id a = i) xs = Some a \<Longrightarrow> a_id a = i"
  by (induction xs) (auto split: if_splits)

lemma resolve_failed_precondition:
  "\<not> resolve_preconditions am i op rc rn dt \<Longrightarrow>
     is_failure (fst (resolve_alert am i op rc rn dt now))
     \<and> snd (resolve_alert am i op rc rn dt now) = am"
  by (auto simp: resolve_preconditions_def resolve_alert_def is_failure_def
      MIN_ROOT_CAUSE_LENGTH_def MIN_RESOLUTION_NOTES_LENGTH_def split: option.splits)

lemma resolve_overflow:
  assumes p: "resolve_preconditions am i op rc rn dt" and o: "\<not> sqlite_integer dt"
  shows "resolve_alert am i op rc rn dt now = (Inl OverflowError, am)"
proof -
  from p obtain a where a: "get_alert (db am) i = Some a"
    "a_state a = ''ACKNOWLEDGED'' \<or> a_state a = ''IN_PROGRESS''"
    by (auto simp: resolve_preconditions_def split: option.splits)
  have "db_resolve_alert (db am) i op rc rn dt now = Inl OverflowError"
    using a(1) o by (simp add: db_resolve_alert_def get_alert_def Let_def)
  then show ?thesis using p a
    by (auto simp: resolve_alert_def resolve_preconditions_def MIN_ROOT_CAUSE_LENGTH_def
      MIN_RESOLUTION_NOTES_LENGTH_def)
qed

lemma resolve_log_exists:
  assumes p: "resolve_preconditions am i op rc rn dt" and o: "sqlite_integer dt"
    and l: "''LOG-'' @ i \<in> set (map l_id (maintenance_logs (db am)))"
  shows "resolve_alert am i op rc rn dt now = (Inl IntegrityError, am)"
proof -
  from p obtain a where a: "get_alert (db am) i = Some a"
    "a_state a = ''ACKNOWLEDGED'' \<or> a_state a = ''IN_PROGRESS''"
    by (auto simp: resolve_preconditions_def split: option.splits)
  have hit: "filter (\<lambda>x. a_id x = i
       \<and> (a_state x = ''ACKNOWLEDGED'' \<or> a_state x = ''IN_PROGRESS'')) (alerts (db am)) \<noteq> []"
    using a find_hit [of i "alerts (db am)" a
        "\<lambda>x. a_state x = ''ACKNOWLEDGED'' \<or> a_state x = ''IN_PROGRESS''"]
    by (simp add: get_alert_def)
  have "db_resolve_alert (db am) i op rc rn dt now = Inl IntegrityError"
    using a(1) hit l o by (simp add: db_resolve_alert_def get_alert_def Let_def)
  then show ?thesis using p a
    by (auto simp: resolve_alert_def resolve_preconditions_def MIN_ROOT_CAUSE_LENGTH_def
      MIN_RESOLUTION_NOTES_LENGTH_def)
qed

lemma resolve_ok:
  assumes p: "resolve_preconditions am i op rc rn dt" and o: "sqlite_integer dt"
    and l: "''LOG-'' @ i \<notin> set (map l_id (maintenance_logs (db am)))"
    and a: "get_alert (db am) i = Some a"
  shows "fst (resolve_alert am i op rc rn dt now) = Inr (Resolved i op now (''LOG-'' @ i))"
    and "get_alert (db (snd (resolve_alert am i op rc rn dt now))) i
           = Some (resolved_row a op rc rn dt now)"
    and "maintenance_logs (db (snd (resolve_alert am i op rc rn dt now)))
           = maintenance_logs (db am) @ [resolution_log a i op rc rn dt now]"
proof -
  let ?hitp = "\<lambda>x. a_state x = ''ACKNOWLEDGED'' \<or> a_state x = ''IN_PROGRESS''"
  let ?f = "\<lambda>x. if a_id x = i \<and> ?hitp x then resolved_row x op rc rn dt now else x"
  from p a have st: "?hitp a"
    by (auto simp: resolve_preconditions_def split: option.splits)
  have fa: "find (\<lambda>x. a_id x = i) (alerts (db am)) = Some a"
    using a by (simp add: get_alert_def)
  have hit: "filter (\<lambda>x. a_id x = i \<and> ?hitp x) (alerts (db am)) \<noteq> []"
    using fa st find_hit [of i "alerts (db am)" a ?hitp] by simp
  have r: "db_resolve_alert (db am) i op rc rn dt now
      = Inr (True, (db am)\<lparr>alerts := map ?f (alerts (db am)),
           maintenance_logs := maintenance_logs (db am)
             @ [resolution_log a i op rc rn dt now]\<rparr>)"
    unfolding resolved_row_def resolution_log_def using fa hit l o
    by (simp add: db_resolve_alert_def Let_def)
  have run: "resolve_alert am i op rc rn dt now
      = (Inr (Resolved i op now (''LOG-'' @ i)),
         am\<lparr>db := (db am)\<lparr>alerts := map ?f (alerts (db am)),
           maintenance_logs := maintenance_logs (db am)
             @ [resolution_log a i op rc rn dt now]\<rparr>\<rparr>)"
    using p a st
    by (auto simp: resolve_alert_def resolve_preconditions_def r MIN_ROOT_CAUSE_LENGTH_def
        MIN_RESOLUTION_NOTES_LENGTH_def)
  have ida: "a_id a = i" using fa by (rule find_id)
  have "find (\<lambda>x. a_id x = i) (map ?f (alerts (db am))) = Some (?f a)"
    using fa by (rule find_map_hit) (simp add: resolved_row_def)
  then have g: "find (\<lambda>x. a_id x = i) (map ?f (alerts (db am)))
      = Some (resolved_row a op rc rn dt now)"
    using st ida by simp
  show "fst (resolve_alert am i op rc rn dt now) = Inr (Resolved i op now (''LOG-'' @ i))"
    by (simp add: run)
  show "get_alert (db (snd (resolve_alert am i op rc rn dt now))) i
      = Some (resolved_row a op rc rn dt now)"
    using g by (simp add: run get_alert_def)
  show "maintenance_logs (db (snd (resolve_alert am i op rc rn dt now)))
           = maintenance_logs (db am) @ [resolution_log a i op rc rn dt now]"
    by (simp add: run)
qed

lemma ex_ack_am_db:
  "db ex_ack_am =
     \<lparr>alerts = [\<lparr>a_id = ''ALERT-0A1B2C3D'', a_machine_id = ''M-1'',
                  a_alert_type = ''critical_rul'', a_severity = ''critical'',
                  a_message = ''Critical: RUL only 10.0 hours remaining'', a_created_at = 10,
                  a_state = ''ACKNOWLEDGED'', a_acknowledged_by = Some ''OP-001'',
                  a_acknowledged_at = Some 20, a_resolved_by = None, a_resolved_at = None,
                  a_resolution_notes = None, a_root_cause = None, a_downtime_minutes = None,
                  a_metadata = JObj []\<rparr>],
      maintenance_logs = []\<rparr>"
  by (simp add: ex_ack_am_def acknowledge_alert_def create_alert_if_new_def
      check_duplicate_alert_def create_alert_def get_alert_def db_acknowledge_alert_def
      AlertManager_init_def empty_database_def Let_def)

lemma ex_logged_am_db:
  "alerts (db ex_logged_am) = alerts (db ex_ack_am)"
  "map l_id (maintenance_logs (db ex_logged_am)) = [''LOG-ALERT-0A1B2C3D'']"
  by (simp_all add: ex_logged_am_def ex_ack_am_db create_maintenance_log_def ex_log_data_def
      or_else_def sqlite_integer_def Let_def)

text \<open>
  C6, as stated, fails. In \<open>ex_logged_am\<close> the alert \<open>ALERT-0A1B2C3D\<close> is acknowledged and
  all six preconditions hold, but a maintenance log with the identifier
  \<open>LOG-ALERT-0A1B2C3D\<close> was posted before: the \<open>INSERT\<close> of the resolution log violates the
  primary key, the transaction is rolled back and the call raises instead of succeeding.
\<close>

theorem resolve_alert_raises_on_existing_log:
  "resolve_preconditions ex_logged_am ''ALERT-0A1B2C3D'' ''OP-001'' ''Bearing wear''
     ''Replaced bearing, tested operation.'' 120
   \<and> resolve_alert ex_logged_am ''ALERT-0A1B2C3D'' ''OP-001'' ''Bearing wear''
       ''Replaced bearing, tested operation.'' 120 50 = (Inl IntegrityError, ex_logged_am)
   \<and> \<not> is_success (fst (resolve_alert ex_logged_am ''ALERT-0A1B2C3D'' ''OP-001''
       ''Bearing wear'' ''Replaced bearing, tested operation.'' 120 50))"
proof -
  have p: "resolve_preconditions ex_logged_am ''ALERT-0A1B2C3D'' ''OP-001'' ''Bearing wear''
     ''Replaced bearing, tested operation.'' 120"
    by (simp add: resolve_preconditions_def get_alert_def ex_logged_am_db ex_ack_am_db)
  have l: "''LOG-'' @ ''ALERT-0A1B2C3D'' \<in> set (map l_id (maintenance_logs (db ex_logged_am)))"
    by (simp add: ex_logged_am_db del: set_map)
  have o: "sqlite_integer 120" by (simp add: sqlite_integer_def)
  show ?thesis
    using p resolve_log_exists [OF p o l, of 50] by (simp add: is_success_def)
qed

lemma sqlite_integer_nonneg: "0 \<le> dt \<Longrightarrow> sqlite_integer dt = (dt < 2 ^ 63)"
  by (simp add: sqlite_integer_def)

text \<open>
  C6, amended. The arguments are texts and a Python \<open>int\<close>, as annotated.
  \<open>resolve_alert\<close> succeeds if and only if the six preconditions hold, \<open>downtime_minutes\<close> is
  below \<open>2\<^sup>6\<^sup>3\<close> and the store holds no maintenance log with the identifier
  \<open>"LOG-" + alert_id\<close>. On success the alert's row becomes \<open>RESOLVED\<close> with the resolution
  fields filled, and the log \<open>"LOG-" + alert_id\<close> for that alert is appended in the same
  transaction. When a precondition fails the call returns a failure and the manager, the
  alert row included, is unchanged. When the preconditions hold the call raises and changes
  nothing in two cases: \<open>OverflowError\<close> when \<open>downtime_minutes\<close> is \<open>2\<^sup>6\<^sup>3\<close> or more (the
  \<open>UPDATE\<close> cannot bind it), and otherwise \<open>IntegrityError\<close> when such a log exists.
\<close>

theorem resolve_alert_outcome:
  assumes "r = resolve_alert am i op rc rn dt now"
  shows "(is_success (fst r)
          = (resolve_preconditions am i op rc rn dt \<and> dt < 2 ^ 63
             \<and> ''LOG-'' @ i \<notin> set (map l_id (maintenance_logs (db am)))))
    \<and> (is_success (fst r) \<longrightarrow>
         fst r = Inr (Resolved i op now (''LOG-'' @ i))
         \<and> (\<exists>a. get_alert (db am) i = Some a
               \<and> get_alert (db (snd r)) i = Some (resolved_row a op rc rn dt now)
               \<and> maintenance_logs (db (snd r))
                   = maintenance_logs (db am) @ [resolution_log a i op rc rn dt now]))
    \<and> (\<not> resolve_preconditions am i op rc rn dt \<longrightarrow> is_failure (fst r) \<and> snd r = am)
    \<and> (resolve_preconditions am i op rc rn dt \<and> 2 ^ 63 \<le> dt
        \<longrightarrow> r = (Inl OverflowError, am))
    \<and> (resolve_preconditions am i op rc rn dt \<and> dt < 2 ^ 63
         \<and> ''LOG-'' @ i \<in> set (map l_id (maintenance_logs (db am)))
        \<longrightarrow> r = (Inl IntegrityError, am))"
proof (cases "resolve_preconditions am i op rc rn dt")
  case False
  from resolve_failed_precondition [OF False, of now] show ?thesis
    using False assms by (auto simp: is_success_def is_failure_def split: sum.splits response.splits)
next
  case True
  then obtain a where a: "get_alert (db am) i = Some a"
    by (auto simp: resolve_preconditions_def split: option.splits)
  from True have "0 \<le> dt" by (simp add: resolve_preconditions_def)
  then have oi: "sqlite_integer dt = (dt < 2 ^ 63)" by (rule sqlite_integer_nonneg)
  show ?thesis
  proof (cases "dt < 2 ^ 63")
    case o: False
    then have "\<not> sqlite_integer dt" by (simp add: oi)
    from resolve_overflow [OF True this, of now] show ?thesis
      using True o assms by (simp add: is_success_def)
  next
    case o: True
    then have so: "sqlite_integer dt" by (simp add: oi)
    show ?thesis
    proof (cases "''LOG-'' @ i \<in> set (map l_id (maintenance_logs (db am)))")
      case l: True
      from resolve_log_exists [OF True so l, of now] show ?thesis
        using True l o assms by (simp add: is_success_def)
    next
      case l: False
      from resolve_ok [OF True so l a, of now] show ?thesis
        using True l o a assms by (simp add: is_success_def)
    qed
  qed
qed

theorem resolve_alert_outcome_witness:
  "resolve_preconditions ex_ack_am ''ALERT-0A1B2C3D'' ''OP-001'' ''Bearing wear''
     ''Replaced bearing, tested operation.'' 120
   \<and> fst (resolve_alert ex_ack_am ''ALERT-0A1B2C3D'' ''OP-001'' ''Bearing wear''
       ''Replaced bearing, tested operation.'' 120 50)
       = Inr (Resolved ''ALERT-0A1B2C3D'' ''OP-001'' 50 ''LOG-ALERT-0A1B2C3D'')
   \<and> map l_id (maintenance_logs (db (snd (resolve_alert ex_ack_am ''ALERT-0A1B2C3D''
       ''OP-001'' ''Bearing wear'' ''Replaced bearing, tested operation.'' 120 50))))
       = [''LOG-ALERT-0A1B2C3D'']
   \<and> is_failure (fst (resolve_alert ex_ack_am ''ALERT-0A1B2C3D'' ''OP'' ''Bearing wear''
       ''Replaced bearing, tested operation.'' 120 50))
   \<and> snd (resolve_alert ex_ack_am ''ALERT-0A1B2C3D'' ''OP'' ''Bearing wear''
       ''Replaced bearing, tested operation.'' 120 50) = ex_ack_am
   \<and> resolve_preconditions ex_ack_am ''ALERT-0A1B2C3D'' ''OP-001'' ''Bearing wear''
       ''Replaced bearing, tested operation.'' (2 ^ 63)
   \<and> resolve_alert ex_ack_am ''ALERT-0A1B2C3D'' ''OP-001'' ''Bearing wear''
       ''Replaced bearing, tested operation.'' (2 ^ 63) 50 = (Inl OverflowError, ex_ack_am)"
proof -
  have p: "resolve_preconditions ex_ack_am ''ALERT-0A1B2C3D'' ''OP-001'' ''Bearing wear''
     ''Replaced bearing, tested operation.'' 120"
    by (simp add: resolve_preconditions_def get_alert_def ex_ack_am_db)
  have q: "resolve_preconditions ex_ack_am ''ALERT-0A1B2C3D'' ''OP-001'' ''Bearing wear''
     ''Replaced bearing, tested operation.'' (2 ^ 63)"
    by (simp add: resolve_preconditions_def get_alert_def ex_ack_am_db)
  have l: "''LOG-'' @ ''ALERT-0A1B2C3D'' \<notin> set (map l_id (maintenance_logs (db ex_ack_am)))"
    by (simp add: ex_ack_am_db)
  have n: "\<not> resolve_preconditions ex_ack_am ''ALERT-0A1B2C3D'' ''OP'' ''Bearing wear''
     ''Replaced bearing, tested operation.'' 120"
    by (simp add: resolve_preconditions_def)
  from resolve_alert_outcome [OF refl, of ex_ack_am "''ALERT-0A1B2C3D''" "''OP-001''"
      "''Bearing wear''" "''Replaced bearing, tested operation.''" 120 50] p l
  have ok: "fst (resolve_alert ex_ack_am ''ALERT-0A1B2C3D'' ''OP-001'' ''Bearing wear''
       ''Replaced bearing, tested operation.'' 120 50)
       = Inr (Resolved ''ALERT-0A1B2C3D'' ''OP-001'' 50 ''LOG-ALERT-0A1B2C3D'')"
    and "\<exists>a. maintenance_logs (db (snd (resolve_alert ex_ack_am ''ALERT-0A1B2C3D''
       ''OP-001'' ''Bearing wear'' ''Replaced bearing, tested operation.'' 120 50)))
       = maintenance_logs (db ex_ack_am) @ [resolution_log a ''ALERT-0A1B2C3D'' ''OP-001''
           ''Bearing wear'' ''Replaced bearing, tested operation.'' 120 50]"
    by auto
  then have logs: "map l_id (maintenance_logs (db (snd (resolve_alert ex_ack_am
       ''ALERT-0A1B2C3D'' ''OP-001'' ''Bearing wear''
       ''Replaced bearing, tested operation.'' 120 50)))) = [''LOG-ALERT-0A1B2C3D'']"
    by (auto simp: ex_ack_am_db resolution_log_def)
  from resolve_alert_outcome [OF refl, of ex_ack_am "''ALERT-0A1B2C3D''" "''OP''"
      "''Bearing wear''" "''Replaced bearing, tested operation.''" 120 50] n
  have bad: "is_failure (fst (resolve_alert ex_ack_am ''ALERT-0A1B2C3D'' ''OP''
       ''Bearing wear'' ''Replaced bearing, tested operation.'' 120 50))"
    "snd (resolve_alert ex_ack_am ''ALERT-0A1B2C3D'' ''OP'' ''Bearing wear''
       ''Replaced bearing, tested operation.'' 120 50) = ex_ack_am"
    by simp_all
  from resolve_alert_outcome [OF refl, of ex_ack_am "''ALERT-0A1B2C3D''" "''OP-001''"
      "''Bearing wear''" "''Replaced bearing, tested operation.''" "2 ^ 63" 50] q
  have over: "resolve_alert ex_ack_am ''ALERT-0A1B2C3D'' ''OP-001'' ''Bearing wear''
       ''Replaced bearing, tested operation.'' (2 ^ 63) 50 = (Inl OverflowError, ex_ack_am)"
    by simp
  show ?thesis using p q ok logs bad over by simp
qed

section \<open>Matching a failure with a prediction\<close>

lemma find_matching_step:
  "find_matching m now w ((k1, p1) # ps) acc =
     find_matching m now w ps
       (if eligible m now w p1
           \<and> (case acc of None \<Rightarrow> True | Some (_, _, b) \<Rightarrow> elapsed_hours now p1 < b)
        then Some (k1, p1, elapsed_hours now p1) else acc)"
  by (cases acc) (auto simp: eligible_def elapsed_hours_def Let_def)

lemma find_matching_none:
  "(find_matching m now w ps acc = None)
     = (acc = None \<and> filter (\<lambda>(k, p). eligible m now w p) ps = [])"
proof (induction ps arbitrary: acc)
  case Nil
  then show ?case by simp
next
  case (Cons x ps)
  obtain k1 p1 where x: "x = (k1, p1)" by (cases x)
  show ?case
    unfolding x find_matching_step Cons.IH
    by (cases acc) auto
qed

lemma find_matching_some:
  assumes "find_matching m now w ps acc = Some (k, p, d)" and "acc_ok m now w acc"
  shows "d = elapsed_hours now p \<and> eligible m now w p
    \<and> ((k, p) \<in> set ps \<or> acc = Some (k, p, d))
    \<and> (\<forall>(k', p') \<in> set ps. eligible m now w p' \<longrightarrow> d \<le> elapsed_hours now p')
    \<and> (\<forall>k0 p0 d0. acc = Some (k0, p0, d0) \<longrightarrow> d \<le> d0)"
  using assms
proof (induction ps arbitrary: acc)
  case Nil
  then show ?case by (auto simp: acc_ok_def)
next
  case (Cons x ps)
  obtain k1 p1 where x: "x = (k1, p1)" by (cases x)
  let ?d1 = "elapsed_hours now p1"
  let ?take = "eligible m now w p1
           \<and> (case acc of None \<Rightarrow> True | Some (_, _, b) \<Rightarrow> ?d1 < b)"
  let ?acc' = "if ?take then Some (k1, p1, ?d1) else acc"
  have run: "find_matching m now w ps ?acc' = Some (k, p, d)"
    using Cons.prems(1) unfolding x find_matching_step .
  have ok: "acc_ok m now w ?acc'"
    using Cons.prems(2) by (simp add: acc_ok_def)
  note ih = Cons.IH [OF run ok]
  show ?case
  proof (cases ?take)
    case True
    then have a: "?acc' = Some (k1, p1, ?d1)" by (rule if_P)
    from ih have 1: "d = elapsed_hours now p" "eligible m now w p"
      and 2: "(k, p) \<in> set ps \<or> ?acc' = Some (k, p, d)"
      and 3: "\<forall>(k', p') \<in> set ps. eligible m now w p' \<longrightarrow> d \<le> elapsed_hours now p'"
      and 4: "\<forall>k0 p0 d0. ?acc' = Some (k0, p0, d0) \<longrightarrow> d \<le> d0"
      by blast+
    from 4 a have le1: "d \<le> ?d1" by simp
    have mem: "(k, p) \<in> set (x # ps) \<or> acc = Some (k, p, d)"
      using 2 a by (auto simp: x)
    have all: "\<forall>(k', p') \<in> set (x # ps). eligible m now w p' \<longrightarrow> d \<le> elapsed_hours now p'"
      using 3 le1 by (auto simp: x)
    have old: "\<forall>k0 p0 d0. acc = Some (k0, p0, d0) \<longrightarrow> d \<le> d0"
      using True le1 by auto
    show ?thesis using 1 mem all old by blast
  next
    case False
    then have a: "?acc' = acc" by (rule if_not_P)
    from ih have 1: "d = elapsed_hours now p" "eligible m now w p"
      and 2: "(k, p) \<in> set ps \<or> ?acc' = Some (k, p, d)"
      and 3: "\<forall>(k', p') \<in> set ps. eligible m now w p' \<longrightarrow> d \<le> elapsed_hours now p'"
      and 4: "\<forall>k0 p0 d0. ?acc' = Some (k0, p0, d0) \<longrightarrow> d \<le> d0"
      by blast+
    have old: "\<forall>k0 p0 d0. acc = Some (k0, p0, d0) \<longrightarrow> d \<le> d0"
      using 4 a by simp
    have mem: "(k, p) \<in> set (x # ps) \<or> acc = Some (k, p, d)"
      using 2 a by (auto simp: x)
    have new: "eligible m now w p1 \<longrightarrow> d \<le> ?d1"
    proof
      assume e: "eligible m now w p1"
      with False obtain k0 p0 b where acc: "acc = Some (k0, p0, b)" and nb: "\<not> ?d1 < b"
        by (cases acc) auto
      from old acc have "d \<le> b" by simp
      with nb show "d \<le> ?d1" by simp
    qed
    have all: "\<forall>(k', p') \<in> set (x # ps). eligible m now w p' \<longrightarrow> d \<le> elapsed_hours now p'"
      using 3 new by (auto simp: x)
    show ?thesis using 1 mem all old by blast
  qed
qed

lemma map_of_dict_set: "map_of (dict_set d k v) k = Some v"
proof (cases "k \<in> set (map fst d)")
  case False
  then have "map_of d k = None" by (simp add: map_of_eq_None_iff)
  then show ?thesis using False by (simp add: dict_set_def map_add_def)
next
  case True
  have "k \<in> set (map fst d) \<Longrightarrow>
    map_of (map (\<lambda>(k', v'). if k' = k then (k', v) else (k', v')) d) k = Some v"
    by (induction d) auto
  with True show ?thesis by (simp add: dict_set_def)
qed

lemma record_failure_unmatched:
  assumes "find_matching m now (prediction_window_hours mt) (predictions mt) None = None"
  shows "predictions (snd (record_failure mt m ev now)) = predictions mt"
    and "\<exists>f. map_of (failures (snd (record_failure mt m ev now)))
               (fst (record_failure mt m ev now)) = Some f
           \<and> \<not> was_predicted f \<and> fe_prediction_id f = None \<and> fe_lead_time_hours f = None"
  using assms by (simp_all add: record_failure_def Let_def map_of_dict_set)

lemma record_failure_matched:
  assumes "find_matching m now (prediction_window_hours mt) (predictions mt) None
             = Some (k, p, d)"
  shows "predictions (snd (record_failure mt m ev now))
           = map (\<lambda>(k', q). if k' = k
                             then (k', q\<lparr>outcome := TRUE_POSITIVE,
                                         actual_failure_time := Some now,
                                         pr_lead_time_hours := Some d\<rparr>)
                             else (k', q)) (predictions mt)"
    and "\<exists>f. map_of (failures (snd (record_failure mt m ev now)))
               (fst (record_failure mt m ev now)) = Some f
           \<and> was_predicted f \<and> fe_prediction_id f = Some (prediction_id p)
           \<and> fe_lead_time_hours f = Some d"
  using assms by (simp_all add: record_failure_def Let_def map_of_dict_set)

lemma replicate_3: "replicate 3 c = [c, c, c]"
  by (simp add: numeral_3_eq_3)

lemma ex_tracker_predictions:
  "map (\<lambda>(k, p). (k, pr_machine_id p, predicted_at p, outcome p)) (predictions ex_tracker)
     = [(''PRED-0001'', ''M-1'', 0, PENDING), (''PRED-0002'', ''M-1'', 36000, PENDING)]"
  "prediction_window_hours ex_tracker = 48"
  by (simp_all add: ex_tracker_def record_prediction_def MetricsTracker_init_def dict_set_def
      zfill_def str_nat.simps replicate_3 Let_def)

lemma ex_tracker_failure:
  "map (\<lambda>(k, p). (k, outcome p, pr_lead_time_hours p))
       (predictions (snd (record_failure ex_tracker ''M-1'' ''failure'' 72000)))
     = [(''PRED-0001'', PENDING, None), (''PRED-0002'', TRUE_POSITIVE, Some 10)]"
  by (simp add: record_failure_def ex_tracker_def record_prediction_def MetricsTracker_init_def
      dict_set_def zfill_def str_nat.simps replicate_3 Let_def)

text \<open>
  C8, as stated, fails. With two pending predictions for \<open>M-1\<close>, made 20 and 10 hours before
  the failure and both inside the 48-hour window, the earliest one (\<open>PRED-0001\<close>) stays
  \<open>PENDING\<close>; the code marks the later one (\<open>PRED-0002\<close>) \<open>TRUE_POSITIVE\<close>, with a lead time
  of 10 hours.
\<close>

theorem record_failure_skips_earliest:
  "map (\<lambda>(k, p). (k, pr_machine_id p, predicted_at p, outcome p)) (predictions ex_tracker)
     = [(''PRED-0001'', ''M-1'', 0, PENDING), (''PRED-0002'', ''M-1'', 36000, PENDING)]
   \<and> prediction_window_hours ex_tracker = 48
   \<and> (72000 - 0) / 3600 = (20::real) \<and> (72000 - 36000) / 3600 = (10::real)
   \<and> map (\<lambda>(k, p). (k, outcome p, pr_lead_time_hours p))
       (predictions (snd (record_failure ex_tracker ''M-1'' ''failure'' 72000)))
     = [(''PRED-0001'', PENDING, None), (''PRED-0002'', TRUE_POSITIVE, Some 10)]"
  using ex_tracker_predictions ex_tracker_failure by simp

text \<open>
  C8, amended: \<open>record_failure(machine, kind)\<close> matches the most recent \<open>PENDING\<close> prediction
  for the same machine satisfying \<open>0 < now - predicted_at \<le> PREDICTION_WINDOW_HOURS\<close>, that
  is one whose elapsed time is smallest: if such a prediction exists, the entry under its key
  is marked \<open>TRUE_POSITIVE\<close> with \<open>lead_time_hours = now - predicted_at\<close> (in hours) and the
  failure event names it; if none exists, no prediction changes and the failure event is
  recorded as unpredicted.
\<close>

theorem record_failure_matches_most_recent:
  assumes "w = prediction_window_hours mt"
    and "mt' = snd (record_failure mt m ev now)"
    and "fid = fst (record_failure mt m ev now)"
  shows "(filter (\<lambda>(k, p). eligible m now w p) (predictions mt) = [] \<longrightarrow>
           predictions mt' = predictions mt
           \<and> (\<exists>f. map_of (failures mt') fid = Some f \<and> \<not> was_predicted f
                  \<and> fe_prediction_id f = None \<and> fe_lead_time_hours f = None))
    \<and> (filter (\<lambda>(k, p). eligible m now w p) (predictions mt) \<noteq> [] \<longrightarrow>
         (\<exists>k p. (k, p) \<in> set (predictions mt) \<and> eligible m now w p
            \<and> (\<forall>(k', p') \<in> set (predictions mt).
                   eligible m now w p' \<longrightarrow> predicted_at p' \<le> predicted_at p)
            \<and> predictions mt'
                = map (\<lambda>(k', q). if k' = k
                                  then (k', q\<lparr>outcome := TRUE_POSITIVE,
                                              actual_failure_time := Some now,
                                              pr_lead_time_hours := Some (elapsed_hours now p)\<rparr>)
                                  else (k', q)) (predictions mt)
            \<and> (\<exists>f. map_of (failures mt') fid = Some f \<and> was_predicted f
                  \<and> fe_prediction_id f = Some (prediction_id p)
                  \<and> fe_lead_time_hours f = Some (elapsed_hours now p))))"
proof (cases "find_matching m now w (predictions mt) None")
  case None
  then have e: "filter (\<lambda>(k, p). eligible m now w p) (predictions mt) = []"
    by (simp add: find_matching_none)
  from None have n: "find_matching m now (prediction_window_hours mt) (predictions mt) None = None"
    by (simp add: assms(1))
  show ?thesis
    using e record_failure_unmatched [OF n, of ev] by (simp add: assms(2,3))
next
  case (Some t)
  obtain k p d where t: "t = (k, p, d)" by (cases t)
  have ne: "filter (\<lambda>(k, p). eligible m now w p) (predictions mt) \<noteq> []"
    using Some find_matching_none [of m now w "predictions mt" None] by simp
  from Some t have s: "find_matching m now w (predictions mt) None = Some (k, p, d)" by simp
  from find_matching_some [OF s] have d: "d = elapsed_hours now p"
    and el: "eligible m now w p" and mem: "(k, p) \<in> set (predictions mt)"
    and least: "\<forall>(k', p') \<in> set (predictions mt).
        eligible m now w p' \<longrightarrow> d \<le> elapsed_hours now p'"
    by (auto simp: acc_ok_def)
  have latest: "\<forall>(k', p') \<in> set (predictions mt).
      eligible m now w p' \<longrightarrow> predicted_at p' \<le> predicted_at p"
    using least d by (auto simp: elapsed_hours_def)
  from s have s': "find_matching m now (prediction_window_hours mt) (predictions mt) None
      = Some (k, p, d)" by (simp add: assms(1))
  note rm = record_failure_matched [OF s', of ev, unfolded d]
  have "(k, p) \<in> set (predictions mt) \<and> eligible m now w p
            \<and> (\<forall>(k', p') \<in> set (predictions mt).
                   eligible m now w p' \<longrightarrow> predicted_at p' \<le> predicted_at p)
            \<and> predictions mt'
                = map (\<lambda>(k', q). if k' = k
                                  then (k', q\<lparr>outcome := TRUE_POSITIVE,
                                              actual_failure_time := Some now,
                                              pr_lead_time_hours := Some (elapsed_hours now p)\<rparr>)
                                  else (k', q)) (predictions mt)
            \<and> (\<exists>f. map_of (failures mt') fid = Some f \<and> was_predicted f
                  \<and> fe_prediction_id f = Some (prediction_id p)
                  \<and> fe_lead_time_hours f = Some (elapsed_hours now p))"
    using mem el latest rm by (simp add: assms(2,3))
  then show ?thesis using ne by blast
qed

lemma ex_tracker_list:
  "predictions ex_tracker
      = [(''PRED-0001'',
          \<lparr>prediction_id = ''PRED-0001'', pr_machine_id = ''M-1'', predicted_at = 0,
           predicted_failure_time = 86400, predicted_ttf_hours = 24,
           health_score_at_prediction = 40, anomaly_score_at_prediction = 6,
           confidence = 0.8, outcome = PENDING, actual_failure_time = None,
           pr_lead_time_hours = None, pr_resolution_notes = []\<rparr>),
         (''PRED-0002'',
          \<lparr>prediction_id = ''PRED-0002'', pr_machine_id = ''M-1'', predicted_at = 36000,
           predicted_failure_time = 122400, predicted_ttf_hours = 24,
           health_score_at_prediction = 35, anomaly_score_at_prediction = 6,
           confidence = 0.8, outcome = PENDING, actual_failure_time = None,
           pr_lead_time_hours = None, pr_resolution_notes = []\<rparr>)]"
  by (simp add: ex_tracker_def record_prediction_def MetricsTracker_init_def dict_set_def
      zfill_def str_nat.simps replicate_3 Let_def)

lemma ex_tracker_eligible:
  "filter (\<lambda>(k, p). eligible ''M-1'' 72000 48 p) (predictions ex_tracker) \<noteq> []"
  "filter (\<lambda>(k, p). eligible ''M-2'' 72000 48 p) (predictions ex_tracker) = []"
  by (simp_all add: ex_tracker_list eligible_def elapsed_hours_def)

theorem record_failure_matches_most_recent_witness:
  "filter (\<lambda>(k, p). eligible ''M-1'' 72000 48 p) (predictions ex_tracker) \<noteq> []
   \<and> (\<exists>k p. (k, p) \<in> set (predictions ex_tracker) \<and> eligible ''M-1'' 72000 48 p
          \<and> (\<forall>(k', p') \<in> set (predictions ex_tracker).
                 eligible ''M-1'' 72000 48 p' \<longrightarrow> predicted_at p' \<le> predicted_at p)
          \<and> predictions (snd (record_failure ex_tracker ''M-1'' ''failure'' 72000))
              = map (\<lambda>(k', q). if k' = k
                                then (k', q\<lparr>outcome := TRUE_POSITIVE,
                                            actual_failure_time := Some 72000,
                                            pr_lead_time_hours := Some (elapsed_hours 72000 p)\<rparr>)
                                else (k', q)) (predictions ex_tracker)
          \<and> (\<exists>f. map_of (failures (snd (record_failure ex_tracker ''M-1'' ''failure'' 72000)))
                      (fst (record_failure ex_tracker ''M-1'' ''failure'' 72000)) = Some f
                 \<and> was_predicted f \<and> fe_prediction_id f = Some (prediction_id p)
                 \<and> fe_lead_time_hours f = Some (elapsed_hours 72000 p)))
   \<and> filter (\<lambda>(k, p). eligible ''M-2'' 72000 48 p) (predictions ex_tracker) = []
   \<and> predictions (snd (record_failure ex_tracker ''M-2'' ''failure'' 72000))
       = predictions ex_tracker"
proof -
  note w = ex_tracker_predictions(2) [symmetric]
  note thm1 = record_failure_matches_most_recent [OF w refl refl,
      of "''M-1''" 72000 "''failure''"]
  note thm2 = record_failure_matches_most_recent [OF w refl refl,
      of "''M-2''" 72000 "''failure''"]
  note ex1 = thm1 [THEN conjunct2, THEN mp, OF ex_tracker_eligible(1)]
  note un = thm2 [THEN conjunct1, THEN mp, OF ex_tracker_eligible(2), THEN conjunct1]
  show ?thesis
    by (intro conjI) (rule ex_tracker_eligible(1), rule ex1, rule ex_tracker_eligible(2), rule un)
qed

section \<open>The stabilised RUL never increases\<close>

lemma rul_of_health_nonneg: "0 \<le> h \<Longrightarrow> 0 \<le> rul_of_health h"
  by (simp add: rul_of_health_def)

lemma heuristic_rul_nonneg: "0 \<le> fst (heuristic_rul sd)"
  by (simp add: heuristic_rul_def Let_def py_round_nonneg rul_of_health_nonneg)

lemma heuristic_rul_rounded: "py_round (fst (heuristic_rul sd)) 1 = fst (heuristic_rul sd)"
  by (simp add: heuristic_rul_def Let_def py_round_idem)

lemma stabilize_first:
  assumes "last_rul st m = None"
  shows "fst (stabilize_prediction st m r h ts) = (r, h)"
    and "last_rul (snd (stabilize_prediction st m r h ts)) m = Some r"
  using assms
  by (auto simp: stabilize_prediction_def last_rul_def or_else_def Let_def
      split: option.splits if_splits)

lemma last_tl: "1 < length xs \<Longrightarrow> last (tl xs) = last xs"
  by (cases xs) auto

lemma stabilize_next:
  assumes "last_rul st m = Some s"
  shows "\<exists>s'. 0 \<le> s' \<and> (0 \<le> s \<longrightarrow> s' \<le> s)
     \<and> fst (fst (stabilize_prediction st m r h ts)) = py_round s' 1
     \<and> last_rul (snd (stabilize_prediction st m r h ts)) m = Some s'"
proof -
  from assms(1) obtain hist where hist: "prediction_history st m = Some hist" "hist \<noteq> []"
    "fst (snd (last hist)) = s"
    by (auto simp: last_rul_def split: option.splits if_splits)
  obtain pt ph where l: "last hist = (pt, s, ph)" using hist(3) by (cases "last hist") auto
  define s' where
    "s' = max MIN_RUL_HOURS (min (min (EMA_ALPHA * r + (1 - EMA_ALPHA) * s) s) MAX_RUL_HOURS)"
  have b: "0 \<le> s'" "0 \<le> s \<longrightarrow> s' \<le> s" by (auto simp: s'_def MIN_RUL_HOURS_def)
  define sh where
    "sh = max 0 (min 100 (if ph * 1.05 < EMA_ALPHA * h + (1 - EMA_ALPHA) * ph then ph
                          else EMA_ALPHA * h + (1 - EMA_ALPHA) * ph))"
  define app where "app = hist @ [(ts, s', sh)]"
  have "1 < length app \<Longrightarrow> last (tl app) = last app" by (rule last_tl)
  moreover have "last app = (ts, s', sh)" by (simp add: app_def)
  ultimately have la: "last (if 50 < length app then tl app else app) = (ts, s', sh)"
    by simp
  have ne: "(if 50 < length app then tl app else app) \<noteq> []"
  proof (cases "50 < length app")
    case True
    then have "tl app \<noteq> []" by (cases app) auto
    then show ?thesis using True by simp
  next
    case False
    then show ?thesis by (simp add: app_def)
  qed
  have run: "stabilize_prediction st m r h ts =
      ((py_round s' 1, py_round sh 2),
       st\<lparr>prediction_history :=
            (prediction_history st)(m \<mapsto> (if 50 < length app then tl app else app))\<rparr>)"
    using hist(1,2) l
    by (simp add: stabilize_prediction_def or_else_def Let_def s'_def sh_def app_def)
  show ?thesis
    using b la ne by (intro exI [of _ s']) (simp add: run last_rul_def)
qed

lemma predict_rul_cached:
  "cached_value st m now = Some p \<Longrightarrow> predict_rul st sd m False now = (p, st)"
  by (simp add: predict_rul_def cached_value_def Let_def)

lemma predict_rul_fresh:
  "cached_value st m now = None \<Longrightarrow>
     predict_rul st sd m False now =
       (let r = stabilize_prediction st m (fst (heuristic_rul sd)) (snd (heuristic_rul sd)) now
        in (fst r, (snd r)\<lparr>stable_predictions := (stable_predictions (snd r))(m \<mapsto> fst r),
                           last_prediction_time := (last_prediction_time (snd r))(m \<mapsto> now)\<rparr>))"
  by (simp add: predict_rul_def cached_value_def raw_predict_rul_def Let_def split: prod.splits)

lemma last_rul_frame [simp]:
  "last_rul (st\<lparr>stable_predictions := a, last_prediction_time := b\<rparr>) m = last_rul st m"
  by (simp add: last_rul_def)

lemma predict_step:
  assumes "cache_consistent st m"
  shows "cache_consistent (snd (predict_rul st sd m False now)) m
    \<and> stable_predictions (snd (predict_rul st sd m False now)) m
        = Some (fst (predict_rul st sd m False now))
    \<and> (\<forall>c hc. stable_predictions st m = Some (c, hc) \<longrightarrow>
          fst (fst (predict_rul st sd m False now)) \<le> c)"
proof (cases "cached_value st m now")
  case (Some p)
  then have sp: "stable_predictions st m = Some p"
    by (auto simp: cached_value_def split: option.splits if_splits)
  show ?thesis using assms sp by (auto simp: predict_rul_cached [OF Some])
next
  case None
  note fresh = predict_rul_fresh [OF None, of sd]
  let ?r = "stabilize_prediction st m (fst (heuristic_rul sd)) (snd (heuristic_rul sd)) now"
  show ?thesis
  proof (cases "last_rul st m")
    case n: None
    have f: "fst ?r = (fst (heuristic_rul sd), snd (heuristic_rul sd))"
      and l: "last_rul (snd ?r) m = Some (fst (heuristic_rul sd))"
      using stabilize_first [OF n] by auto
    have nc: "stable_predictions st m = None"
      using assms n by (auto simp: cache_consistent_def split: option.splits)
    show ?thesis
      using f l nc heuristic_rul_nonneg [of sd] heuristic_rul_rounded [of sd]
      by (simp add: fresh Let_def cache_consistent_def case_prod_beta)
  next
    case (Some s)
    from stabilize_next [OF Some, of "fst (heuristic_rul sd)" "snd (heuristic_rul sd)" now]
    obtain s' where s': "0 \<le> s'" "0 \<le> s \<longrightarrow> s' \<le> s"
      "fst (fst ?r) = py_round s' 1" "last_rul (snd ?r) m = Some s'"
      by blast
    have le: "\<forall>c hc. stable_predictions st m = Some (c, hc) \<longrightarrow> py_round s' 1 \<le> c"
    proof (intro allI impI)
      fix c hc assume c: "stable_predictions st m = Some (c, hc)"
      with assms Some have "0 \<le> s" "py_round s 1 \<le> c"
        by (auto simp: cache_consistent_def)
      with s'(2) have "py_round s' 1 \<le> py_round s 1" by (simp add: py_round_mono)
      with \<open>py_round s 1 \<le> c\<close> show "py_round s' 1 \<le> c" by simp
    qed
    obtain a b where ab: "fst ?r = (a, b)" by (cases "fst ?r")
    with s'(3) have a: "a = py_round s' 1" by simp
    show ?thesis
      using s'(1,4) le ab a
      by (simp add: fresh Let_def cache_consistent_def)
  qed
qed

lemma predict_other:
  assumes "m' \<noteq> m"
  shows "stable_predictions (snd (predict_rul st sd m' b now)) m = stable_predictions st m
    \<and> last_rul (snd (predict_rul st sd m' b now)) m = last_rul st m"
  using assms
  by (auto simp: predict_rul_def stabilize_prediction_def raw_predict_rul_def last_rul_def
      or_else_def Let_def split: option.splits prod.splits if_splits)

lemma predict_other_consistent:
  "m' \<noteq> m \<Longrightarrow> cache_consistent st m
     \<Longrightarrow> cache_consistent (snd (predict_rul st sd m' b now)) m"
  using predict_other [of m' m st sd b now]
  by (auto simp: cache_consistent_def split: option.splits prod.splits)

lemma cache_consistent_fresh:
  "cache_consistent StabilizedRULPredictor_init m"
  "cache_consistent (reset_machine st m) m"
  "cache_consistent (snd (predict_rul st sd m True now)) m"
  by (simp_all add: cache_consistent_def StabilizedRULPredictor_init_def reset_machine_def
      predict_rul_def)

lemma run_sorted:
  assumes "cache_consistent st m" and "smoothing_calls m calls"
  shows "sorted_wrt (\<ge>) (returned_ruls m (predict_run st calls))
    \<and> (\<forall>c hc. stable_predictions st m = Some (c, hc) \<longrightarrow>
          (\<forall>r \<in> set (returned_ruls m (predict_run st calls)). r \<le> c))"
  using assms
proof (induction calls arbitrary: st)
  case Nil
  then show ?case by (simp add: returned_ruls_def)
next
  case (Cons call calls)
  obtain mid sd bypass now where call: "call = (mid, sd, bypass, now)" by (cases call) auto
  let ?p = "predict_rul st sd mid bypass now"
  have rest: "smoothing_calls m calls" using Cons.prems(2) by (simp add: smoothing_calls_def)
  have unfold: "predict_run st (call # calls) = (mid, fst ?p) # predict_run (snd ?p) calls"
    by (simp add: call split: prod.splits)
  show ?case
  proof (cases "mid = m")
    case False
    have c: "cache_consistent (snd ?p) m"
      using False Cons.prems(1) by (rule predict_other_consistent)
    have same: "stable_predictions (snd ?p) m = stable_predictions st m"
      using predict_other [OF False] by simp
    from Cons.IH [OF c rest] same False show ?thesis
      by (simp add: unfold returned_ruls_def)
  next
    case True
    then have nb: "\<not> bypass" using Cons.prems(2) by (simp add: smoothing_calls_def call)
    let ?q = "predict_rul st sd m False now"
    from predict_step [OF Cons.prems(1), of sd now]
    have c: "cache_consistent (snd ?q) m"
      and cache: "stable_predictions (snd ?q) m = Some (fst ?q)"
      and le: "\<forall>c hc. stable_predictions st m = Some (c, hc) \<longrightarrow> fst (fst ?q) \<le> c"
      by blast+
    obtain r h where rh: "fst ?q = (r, h)" by (cases "fst ?q")
    from Cons.IH [OF c rest] cache rh
    have ih1: "sorted_wrt (\<ge>) (returned_ruls m (predict_run (snd ?q) calls))"
      and ih2: "\<forall>x \<in> set (returned_ruls m (predict_run (snd ?q) calls)). x \<le> r"
      by auto
    have outs: "returned_ruls m (predict_run st (call # calls))
        = r # returned_ruls m (predict_run (snd ?q) calls)"
      using True rh nb by (simp add: unfold returned_ruls_def)
    have bound: "\<forall>c hc. stable_predictions st m = Some (c, hc) \<longrightarrow>
          (\<forall>x \<in> set (r # returned_ruls m (predict_run (snd ?q) calls)). x \<le> c)"
      using le rh ih2 by fastforce
    show ?thesis unfolding outs using ih1 ih2 bound by simp
  qed
qed

text \<open>
  C4: start from a predictor whose cache for machine \<open>m\<close> is consistent (the fresh predictor
  is, and so is any predictor right after \<open>reset_machine\<close> or a bypassing call for \<open>m\<close>, and
  every smoothing call keeps it so). Over any run of \<open>predict_rul\<close> calls, for any machines,
  in which the calls for \<open>m\<close> have \<open>bypass_smoothing = False\<close>, the RUL values returned for
  \<open>m\<close> are non-increasing in the order of the calls.
\<close>

theorem stabilized_rul_non_increasing:
  assumes "cache_consistent st m" and "smoothing_calls m calls"
  shows "sorted_wrt (\<ge>) (returned_ruls m (predict_run st calls))"
  using run_sorted [OF assms] by simp


lemma heuristic_rul_stages:
  "heuristic_rul sd =
     (let h = min 100 (max 0
                (vib_score_of ((get_or sd ''vibration_x'' 0.5 + get_or sd ''vibration_y'' 0.5) / 2) * 0.6
                 + temp_score_of (get_or sd ''temperature'' 70) * 0.4))
      in (py_round (rul_of_health h) 1, py_round h 2))"
  by (simp add: heuristic_rul_def Let_def)

lemma ex_fair_heuristic: "heuristic_rul ex_fair = (93.8, 79.09)"
proof -
  have v: "vib_score_of ((get_or ex_fair ''vibration_x'' 0.5 + get_or ex_fair ''vibration_y'' 0.5) / 2)
      = 900 / 11"
    by (simp add: get_or_def ex_fair_def vib_score_of_def)
  have t: "temp_score_of (get_or ex_fair ''temperature'' 70) = 75"
    by (simp add: get_or_def ex_fair_def temp_score_of_def)
  have h: "min 100 (max 0 (900 / 11 * 0.6 + 75 * 0.4)) = (870 / 11 :: real)" by simp
  have r: "rul_of_health (870 / 11) = 1032 / 11" by (simp add: rul_of_health_def)
  show ?thesis
    unfolding heuristic_rul_stages v t h Let_def r
    by (simp add: py_round_def round_half_even_def Let_def)
qed

lemma ex_good_heuristic: "heuristic_rul ex_good = (144, 100)"
proof -
  have v: "vib_score_of ((get_or ex_good ''vibration_x'' 0.5 + get_or ex_good ''vibration_y'' 0.5) / 2)
      = 100"
    by (simp add: get_or_def ex_good_def vib_score_of_def)
  have t: "temp_score_of (get_or ex_good ''temperature'' 70) = 100"
    by (simp add: get_or_def ex_good_def temp_score_of_def)
  have h: "min 100 (max 0 (100 * 0.6 + 100 * 0.4)) = (100 :: real)" by simp
  have r: "rul_of_health 100 = 144" by (simp add: rul_of_health_def)
  show ?thesis
    unfolding heuristic_rul_stages v t h Let_def r
    by (simp add: py_round_def round_half_even_def Let_def)
qed

lemma ex_bad_heuristic: "heuristic_rul ex_bad = (35.7, 47.31)"
proof -
  have v: "vib_score_of ((get_or ex_bad ''vibration_x'' 0.5 + get_or ex_bad ''vibration_y'' 0.5) / 2)
      = 765 / 13"
    by (simp add: get_or_def ex_bad_def vib_score_of_def)
  have t: "temp_score_of (get_or ex_bad ''temperature'' 70) = 30"
    by (simp add: get_or_def ex_bad_def temp_score_of_def)
  have h: "min 100 (max 0 (765 / 13 * 0.6 + 30 * 0.4)) = (615 / 13 :: real)" by simp
  have r: "rul_of_health (615 / 13) = 464 / 13" by (simp add: rul_of_health_def)
  show ?thesis
    unfolding heuristic_rul_stages v t h Let_def r
    by (simp add: py_round_def round_half_even_def Let_def)
qed

lemmas stab_eval = predict_rul_def stabilize_prediction_def raw_predict_rul_def
  ex_fair_heuristic ex_good_heuristic ex_bad_heuristic
  or_else_def EMA_ALPHA_def MIN_RUL_HOURS_def MAX_RUL_HOURS_def
  MIN_PREDICTION_INTERVAL_SECONDS_def py_round_def round_half_even_def Let_def

lemma ex_step1:
  "predict_rul StabilizedRULPredictor_init ex_fair ''M-1'' False 0 = ((93.8, 79.09), ex_st1)"
  by (simp add: stab_eval StabilizedRULPredictor_init_def ex_st1_def)

lemma ex_step2:
  "predict_rul ex_st1 ex_good ''M-1'' False 100 = ((93.8, 79.09), ex_st1)"
  by (simp add: stab_eval ex_st1_def)

lemma ex_step3:
  "predict_rul ex_st1 ex_bad ''M-1'' False 600 = ((88, 75.91), ex_st3)"
  by (simp add: stab_eval ex_st1_def ex_st3_def)

lemma ex_step4:
  "fst (predict_rul ex_st3 ex_good ''M-1'' False 1200) = (88, 78.32)"
  by (simp add: stab_eval ex_st3_def)

lemma predict_run_cons:
  "predict_run st ((m, sd, b, now) # cs)
     = (m, fst (predict_rul st sd m b now)) # predict_run (snd (predict_rul st sd m b now)) cs"
  by (simp split: prod.splits)

lemma ex_calls_run:
  "returned_ruls ''M-1'' (predict_run StabilizedRULPredictor_init ex_calls) = [93.8, 93.8, 88, 88]"
  by (simp add: ex_calls_def returned_ruls_def predict_run_cons ex_step1 ex_step2 ex_step3
      ex_step4 del: predict_run.simps(2))

lemma ex_calls_smoothing: "smoothing_calls ''M-1'' ex_calls"
  by (simp add: smoothing_calls_def ex_calls_def)

theorem stabilized_rul_non_increasing_witness:
  "cache_consistent StabilizedRULPredictor_init ''M-1'' \<and> smoothing_calls ''M-1'' ex_calls
   \<and> returned_ruls ''M-1'' (predict_run StabilizedRULPredictor_init ex_calls)
       = [93.8, 93.8, 88, 88]
   \<and> sorted_wrt (\<ge>) (returned_ruls ''M-1'' (predict_run StabilizedRULPredictor_init ex_calls))"
  using stabilized_rul_non_increasing [OF cache_consistent_fresh(1) ex_calls_smoothing]
    cache_consistent_fresh(1) [of "''M-1''"] ex_calls_smoothing ex_calls_run
  by simp
section \<open>A run of the sample path\<close>

lemmas cfg_defs = RUL_CRITICAL_TRIGGER_def RUL_CRITICAL_CLEAR_def RUL_WARNING_TRIGGER_def
  RUL_WARNING_CLEAR_def HEALTH_CRITICAL_TRIGGER_def HEALTH_CRITICAL_CLEAR_def
  HEALTH_WARNING_TRIGGER_def HEALTH_WARNING_CLEAR_def PERSISTENCE_WINDOWS_def
  MAX_ALERTS_PER_MACHINE_PER_MINUTE_def MULTI_SENSOR_REQUIRED_FOR_CRITICAL_def
  MIN_DEGRADED_SENSORS_FOR_CRITICAL_def SENSOR_DEGRADATION_THRESHOLDS_def
  ANOMALY_CRITICAL_SCORE_def EVALUATION_WINDOWS_def

lemmas run_defs = check_and_create_alerts_def cleanup_old_pending_alerts_def
  cleanup_old_rate_limit_data_def check_rate_limit_def feed_windows_def wm_add_sample_def
  add_sample_def prune_old_samples_def rul_section_def health_section_def anomaly_section_def
  wm_evaluate_def evaluate_def calculate_trend_def collect_def
  process_alert_with_persistence_def pending_update_def is_persistent_def
  create_alert_if_new_def check_duplicate_alert_def create_alert_def is_open_state_def
  clear_pending_alert_def check_multi_sensor_confirmation_def get_or_def or_else_def
  get_window_config_def EvaluationWindow_init_def PendingAlert_init_def

lemmas ex_defs = ex_fp_def ex_render_def ex_window_def ex_windows_def ex_pend_def ex_alert_def
  ex_alerts5_def ex_alerts6_def ex_s1_def ex_s2_def ex_s3_def ex_s4_def ex_s5_def ex_s6_def
  ex_sample_def ex_sensors_def json_of_sensors_def
  AlertManager_init_def empty_database_def

lemma ex_risk1: "calculate_risk_score 0 40 45 6 = 0.644"
  by (simp add: calculate_risk_score_def py_round_def round_half_even_def MAX_RUL_HOURS_def
      Let_def)

lemma ex_sample_step1:
  "check_and_create_alerts (AlertManager_init empty_database) ''M-1'' ex_sensors 40 45 True 6 ex_fp ex_render
       (''000000A1'', ''000000A2'', ''000000A3'') 0
     = (Inr [], ex_state1)"
  by (simp add: run_defs cfg_defs ex_defs ex_risk1 ex_state1_def Let_def fun_eq_iff)

lemma ex_risk2: "calculate_risk_score 0 39 44 6 = 0.651"
  by (simp add: calculate_risk_score_def py_round_def round_half_even_def MAX_RUL_HOURS_def
      Let_def)

lemma ex_sample_step2:
  "check_and_create_alerts ex_state1 ''M-1'' ex_sensors 39 44 True 6 ex_fp ex_render
       (''000000B1'', ''000000B2'', ''000000B3'') 1
     = (Inr [], ex_state2)"
  by (simp add: run_defs cfg_defs ex_defs ex_risk2 ex_state1_def ex_state2_def Let_def fun_eq_iff)

lemma ex_risk3: "calculate_risk_score 0 38 43 6 = 0.658"
  by (simp add: calculate_risk_score_def py_round_def round_half_even_def MAX_RUL_HOURS_def
      Let_def)

lemma ex_sample_step3:
  "check_and_create_alerts ex_state2 ''M-1'' ex_sensors 38 43 True 6 ex_fp ex_render
       (''000000C1'', ''000000C2'', ''000000C3'') 2
     = (Inr [], ex_state3)"
  by (simp add: run_defs cfg_defs ex_defs ex_risk3 ex_state2_def ex_state3_def Let_def fun_eq_iff)

lemma ex_risk4: "calculate_risk_score 0 20 25 6 = 0.783"
  by (simp add: calculate_risk_score_def py_round_def round_half_even_def MAX_RUL_HOURS_def
      Let_def)

lemma ex_sample_step4:
  "check_and_create_alerts ex_state3 ''M-1'' ex_sensors 20 25 True 6 ex_fp ex_render
       (''000000D1'', ''000000D2'', ''000000D3'') 3
     = (Inr [], ex_state4)"
  by (simp add: run_defs cfg_defs ex_defs ex_risk4 ex_state3_def ex_state4_def Let_def fun_eq_iff)

lemma ex_risk5: "calculate_risk_score 0 19 24 6 = 0.79"
  by (simp add: calculate_risk_score_def py_round_def round_half_even_def MAX_RUL_HOURS_def
      Let_def)

lemma ex_sample_step5:
  "check_and_create_alerts ex_state4 ''M-1'' ex_sensors 19 24 True 6 ex_fp ex_render
       (''000000E1'', ''000000E2'', ''000000E3'') 33
     = (Inr [''ALERT-000000E1'', ''ALERT-000000E2''], ex_state5)"
  by (simp add: run_defs cfg_defs ex_defs ex_risk5 ex_state4_def ex_state5_def Let_def fun_eq_iff)

lemma ex_risk6: "calculate_risk_score 0 24 52 10 = 0.735"
  by (simp add: calculate_risk_score_def py_round_def round_half_even_def MAX_RUL_HOURS_def
      Let_def)

lemma ex_sample_step6:
  "check_and_create_alerts ex_state5 ''M-1'' ex_sensors 24 52 True 10 ex_fp ex_render
       (''000000F1'', ''000000F2'', ''000000F3'') 62
     = (Inr [''ALERT-000000F1'', ''ALERT-000000F3''], ex_state6)"
  by (simp add: run_defs cfg_defs ex_defs ex_risk6 ex_state5_def ex_state6_def Let_def fun_eq_iff)


lemma ex_reachable:
  "reachable ex_state4" "reachable ex_state5" "reachable ex_state6"
proof -
  have 1: "reachable ex_state1"
    using reachable.sample [OF reachable.start, of "''M-1''" ex_sensors 40 45 True 6 ex_fp
        ex_render "(''000000A1'', ''000000A2'', ''000000A3'')" 0]
    by (simp add: ex_sample_step1)
  have 2: "reachable ex_state2"
    using reachable.sample [OF 1, of "''M-1''" ex_sensors 39 44 True 6 ex_fp
        ex_render "(''000000B1'', ''000000B2'', ''000000B3'')" 1]
    by (simp add: ex_sample_step2)
  have 3: "reachable ex_state3"
    using reachable.sample [OF 2, of "''M-1''" ex_sensors 38 43 True 6 ex_fp
        ex_render "(''000000C1'', ''000000C2'', ''000000C3'')" 2]
    by (simp add: ex_sample_step3)
  show 4: "reachable ex_state4"
    using reachable.sample [OF 3, of "''M-1''" ex_sensors 20 25 True 6 ex_fp
        ex_render "(''000000D1'', ''000000D2'', ''000000D3'')" 3]
    by (simp add: ex_sample_step4)
  show 5: "reachable ex_state5"
    using reachable.sample [OF 4, of "''M-1''" ex_sensors 19 24 True 6 ex_fp
        ex_render "(''000000E1'', ''000000E2'', ''000000E3'')" 33]
    by (simp add: ex_sample_step5)
  show "reachable ex_state6"
    using reachable.sample [OF 5, of "''M-1''" ex_sensors 24 52 True 10 ex_fp
        ex_render "(''000000F1'', ''000000F2'', ''000000F3'')" 62]
    by (simp add: ex_sample_step6)
qed

lemma ex_state5_open_rows:
  "map a_id (open_rows (db ex_state5) ''M-1'' ''critical_rul'') = [''ALERT-000000E1'']"
  by (simp add: open_rows_def ex_state5_def ex_alerts5_def ex_alert_def is_open_state_def)

theorem at_most_one_open_alert_witness:
  "reachable ex_state5
   \<and> map a_id (open_rows (db ex_state5) ''M-1'' ''critical_rul'') = [''ALERT-000000E1'']
   \<and> length (open_rows (db ex_state5) ''M-1'' ''critical_rul'') \<le> 1
   \<and> create_alert_if_new ex_state5 ''M-1'' ''critical_rul'' ''critical''
         ''Critical: RUL only 18.0 hours remaining'' (JObj []) ''000000F1'' 34
       = (Inr None, ex_state5)"
proof -
  have n: "open_rows (db ex_state5) ''M-1'' ''critical_rul'' \<noteq> []"
    using ex_state5_open_rows by auto
  from at_most_one_open_alert [of ex_state5 "''M-1''" "''critical_rul''" ex_state5
      "''critical''" "''Critical: RUL only 18.0 hours remaining''" "JObj []" "''000000F1''" 34]
    ex_reachable(2) n
  show ?thesis by (simp add: ex_state5_open_rows)
qed

section \<open>Hysteresis\<close>























end
